theory Spec2Isabelle
  imports Main
begin

section \<open>Strings and numbers of the host language\<close>

text \<open>
  The program is TypeScript. Its strings are modelled as \<^typ>\<open>string\<close> (one \<^typ>\<open>char\<close> per
  code unit, so the model covers texts whose code units are below 256), and its numbers as
  natural numbers: every number the extractor produces comes from \<open>parseInt\<close> on a run of
  decimal digits, and a double holds such a value exactly below \<open>2^53\<close>.

  Case conversion is the ASCII one. The source applies \<open>toUpperCase\<close> and \<open>toLowerCase\<close>
  to what a regular expression captured (ASCII letters and digits only) and to the
  description before it looks for an ASCII word in it; no code unit from 128 to 255 turns into
  an ASCII letter under either conversion, so both uses agree with the ASCII conversion.
\<close>

definition is_upper :: "char \<Rightarrow> bool" where
  "is_upper c = (65 \<le> (of_char c :: nat) \<and> (of_char c :: nat) \<le> 90)"

definition is_lower :: "char \<Rightarrow> bool" where
  "is_lower c = (97 \<le> (of_char c :: nat) \<and> (of_char c :: nat) \<le> 122)"

definition is_digit :: "char \<Rightarrow> bool" where
  "is_digit c = (48 \<le> (of_char c :: nat) \<and> (of_char c :: nat) \<le> 57)"

definition is_space :: "char \<Rightarrow> bool" where
  \<comment> \<open>the class \<open>\s\<close> below 256: tab, line feed, vertical tab, form feed, carriage return,
      space and no-break space\<close>
  "is_space c = ((9 \<le> (of_char c :: nat) \<and> (of_char c :: nat) \<le> 13)
     \<or> (of_char c :: nat) = 32 \<or> (of_char c :: nat) = 160)"

definition is_word :: "char \<Rightarrow> bool" where
  \<comment> \<open>the class \<open>\w\<close>\<close>
  "is_word c = (is_upper c \<or> is_lower c \<or> is_digit c \<or> c = CHR ''_'')"

definition lower_char :: "char \<Rightarrow> char" where
  "lower_char c = (if is_upper c then char_of ((of_char c :: nat) + 32) else c)"

definition upper_char :: "char \<Rightarrow> char" where
  "upper_char c = (if is_lower c then char_of ((of_char c :: nat) - 32) else c)"

definition toLowerCase :: "string \<Rightarrow> string" where
  "toLowerCase s = map lower_char s"

definition toUpperCase :: "string \<Rightarrow> string" where
  "toUpperCase s = map upper_char s"

fun startsWith :: "string \<Rightarrow> string \<Rightarrow> bool" where
  "startsWith s [] = True"
| "startsWith [] (p # ps) = False"
| "startsWith (c # cs) (p # ps) = (c = p \<and> startsWith cs ps)"

fun str_includes :: "string \<Rightarrow> string \<Rightarrow> bool" where
  "str_includes [] sub = (sub = [])"
| "str_includes (c # cs) sub = (startsWith (c # cs) sub \<or> str_includes cs sub)"

definition digit_char :: "nat \<Rightarrow> char" where
  "digit_char d = char_of (48 + d)"

definition digit_val :: "char \<Rightarrow> nat" where
  "digit_val c = (of_char c :: nat) - 48"

text \<open>The decimal text of a number, as a template literal \<open>`${n}`\<close> prints it.\<close>

fun show_nat :: "nat \<Rightarrow> string" where
  "show_nat n = (if n < 10 then [digit_char n] else show_nat (n div 10) @ [digit_char (n mod 10)])"

declare show_nat.simps [simp del]

text \<open>
  \<open>parseInt(s, 10)\<close> on a string that starts with decimal digits: the value of the leading
  digits. The program calls it on captures of \<open>(\d+)\<close> only, which are that.
\<close>

definition parseInt :: "string \<Rightarrow> nat" where
  "parseInt s = foldl (\<lambda>acc c. acc * 10 + digit_val c) 0 (takeWhile is_digit s)"

section \<open>Regular expressions\<close>

text \<open>
  The regular expressions of the program use literal characters, the classes \<open>\d\<close>,
  \<open>\s\<close>, \<open>\w\<close>, \<open>[a-z]\<close> and \<open>[\s\S]\<close>, sequence, alternation, \<open>?\<close>, greedy \<open>*\<close>
  and \<open>+\<close> on a class, and capture groups. The matcher below is the backtracking one of the
  language: \<open>run\<close> lists every way the expression matches a prefix of the input, in the
  order in which backtracking tries them, and \<open>exec\<close> takes the first way at the leftmost
  start position. A group that takes no part in a match is \<open>None\<close> (\<open>undefined\<close>).
\<close>

datatype cls = Digit | Space | Word | Lower | AnyChar

datatype regex =
    Chars string
  | Cls cls
  | Seq regex regex
  | Alt regex regex
  | Opt regex
  | Star cls
  | Plus cls
  | Group regex

fun seq :: "regex list \<Rightarrow> regex" where
  "seq [] = Chars []"
| "seq [r] = r"
| "seq (r # rs) = Seq r (seq rs)"

fun alt :: "regex list \<Rightarrow> regex" where
  "alt [] = Chars []"
| "alt [r] = r"
| "alt (r # rs) = Alt r (alt rs)"

text \<open>
  With the flag \<open>i\<close> two characters match when their canonical forms (the upper-case ones)
  agree; a code unit from 128 on never has an ASCII canonical form, and every pattern
  character of the program is ASCII.
\<close>

definition char_eq :: "bool \<Rightarrow> char \<Rightarrow> char \<Rightarrow> bool" where
  "char_eq ci p c = (if ci then upper_char p = upper_char c else p = c)"

fun in_cls :: "bool \<Rightarrow> cls \<Rightarrow> char \<Rightarrow> bool" where
  "in_cls ci Digit c = is_digit c"
| "in_cls ci Space c = is_space c"
| "in_cls ci Word c = is_word c"
| "in_cls ci Lower c = (is_lower c \<or> (ci \<and> is_upper c))"
| "in_cls ci AnyChar c = True"

fun chars_match :: "bool \<Rightarrow> string \<Rightarrow> string \<Rightarrow> string option" where
  "chars_match ci [] s = Some s"
| "chars_match ci (p # ps) [] = None"
| "chars_match ci (p # ps) (c # cs) = (if char_eq ci p c then chars_match ci ps cs else None)"

text \<open>The inputs left after a greedy \<open>*\<close>: the longest run first, then one character less, ...\<close>

fun star_cls :: "bool \<Rightarrow> cls \<Rightarrow> string \<Rightarrow> string list" where
  "star_cls ci k [] = [[]]"
| "star_cls ci k (c # cs) = (if in_cls ci k c then star_cls ci k cs @ [c # cs] else [c # cs])"

fun ngroups :: "regex \<Rightarrow> nat" where
  "ngroups (Chars p) = 0"
| "ngroups (Cls k) = 0"
| "ngroups (Seq a b) = ngroups a + ngroups b"
| "ngroups (Alt a b) = ngroups a + ngroups b"
| "ngroups (Opt a) = ngroups a"
| "ngroups (Star k) = 0"
| "ngroups (Plus k) = 0"
| "ngroups (Group a) = Suc (ngroups a)"

type_synonym captures = "string option list"

fun run :: "bool \<Rightarrow> regex \<Rightarrow> string \<Rightarrow> (captures \<times> string) list" where
  "run ci (Chars p) s = (case chars_match ci p s of None \<Rightarrow> [] | Some r \<Rightarrow> [([], r)])"
| "run ci (Cls k) s = (case s of [] \<Rightarrow> [] | c # cs \<Rightarrow> if in_cls ci k c then [([], cs)] else [])"
| "run ci (Seq a b) s =
     concat (map (\<lambda>(ca, r). map (\<lambda>(cb, r'). (ca @ cb, r')) (run ci b r)) (run ci a s))"
| "run ci (Alt a b) s =
     map (\<lambda>(ca, r). (ca @ replicate (ngroups b) None, r)) (run ci a s) @
     map (\<lambda>(cb, r). (replicate (ngroups a) None @ cb, r)) (run ci b s)"
| "run ci (Opt a) s = run ci a s @ [(replicate (ngroups a) None, s)]"
| "run ci (Star k) s = map (\<lambda>r. ([], r)) (star_cls ci k s)"
| "run ci (Plus k) s =
     (case s of [] \<Rightarrow> []
      | c # cs \<Rightarrow> if in_cls ci k c then map (\<lambda>r. ([], r)) (star_cls ci k cs) else [])"
| "run ci (Group a) s =
     map (\<lambda>(ca, r). (Some (take (length s - length r) s) # ca, r)) (run ci a s)"

text \<open>
  A match as \<open>String.prototype.match\<close> returns it for an expression without the flag
  \<open>g\<close>: the matched text (index 0) and the groups (index 1, 2, ...).
\<close>

record rmatch =
  matched :: string
  groups :: captures

fun exec :: "bool \<Rightarrow> regex \<Rightarrow> string \<Rightarrow> rmatch option" where
  "exec ci r [] =
     (case run ci r [] of [] \<Rightarrow> None
      | (caps, rest) # _ \<Rightarrow> Some \<lparr>matched = [], groups = caps\<rparr>)"
| "exec ci r (c # cs) =
     (case run ci r (c # cs) of [] \<Rightarrow> exec ci r cs
      | (caps, rest) # _ \<Rightarrow>
          Some \<lparr>matched = take (length (c # cs) - length rest) (c # cs), groups = caps\<rparr>)"

text \<open>
  \<open>m[i]\<close> for \<open>i \<ge> 1\<close>. Every group the program reads stands outside any alternative or
  optional part, so it is a string whenever the expression matched; the empty string stands
  for the \<open>undefined\<close> that cannot arise there.
\<close>

definition grp :: "rmatch \<Rightarrow> nat \<Rightarrow> string" where
  "grp m i = (if i - 1 < length (groups m) \<and> 0 < i
     then (case groups m ! (i - 1) of Some s \<Rightarrow> s | None \<Rightarrow> []) else [])"

section \<open>The parameter set\<close>

text \<open>
  \<open>ExtractedParams\<close> of the template processor: every field is optional, and \<open>None\<close> is
  the absent key. An object with string keys (\<open>env\<close>) is an association list in the order
  of its keys.
\<close>

datatype PullPolicy = Always | IfNotPresent | Never

datatype Mode = Provider | Fizz

record PortSpec =
  port :: nat
  as :: "nat option"
  global :: "bool option"

record GpuSpec =
  units :: "nat option"
  model :: "string option"

record ExtractedParams =
  image' :: "string option"
  pullPolicy :: "PullPolicy option"
  ports :: "PortSpec list option"
  env :: "(string \<times> string) list option"
  cpu :: "nat option"
  memory :: "string option"
  storage :: "string option"
  gpu :: "GpuSpec option"
  name :: "string option"
  duration :: "string option"
  mode :: "Mode option"
  region :: "string option"
  amount :: "nat option"
  count :: "nat option"

definition empty_params :: ExtractedParams where
  "empty_params = \<lparr>image' = None, pullPolicy = None, ports = None, env = None, cpu = None,
     memory = None, storage = None, gpu = None, name = None, duration = None, mode = None,
     region = None, amount = None, count = None\<rparr>"

definition empty_gpu :: GpuSpec where
  "empty_gpu = \<lparr>units = None, model = None\<rparr>"

definition jupyter_image :: string where
  "jupyter_image = ''spheronnetwork/jupyter-notebook:pytorch-2.4.1-cuda-enabled''"

definition jupyter_ports :: "PortSpec list" where
  "jupyter_ports = [\<lparr>port = 8888, as = Some 8888, global = Some True\<rparr>,
                    \<lparr>port = 3000, as = Some 3000, global = Some True\<rparr>]"

definition DEFAULT_PARAMS :: ExtractedParams where
  "DEFAULT_PARAMS = \<lparr>
     image' = Some jupyter_image,
     pullPolicy = Some IfNotPresent,
     ports = Some jupyter_ports,
     env = Some [(''JUPYTER_TOKEN'', ''test'')],
     cpu = Some 16,
     memory = Some ''64Gi'',
     storage = Some ''500Gi'',
     gpu = Some \<lparr>units = Some 1, model = Some ''rtx6000-ada''\<rparr>,
     name = Some ''py-cuda'',
     duration = Some ''2h'',
     mode = Some Provider,
     region = Some ''westcoast'',
     amount = Some 6,
     count = Some 1\<rparr>"

section \<open>The template processor\<close>

definition CPU_REGEX :: regex where
  "CPU_REGEX = seq [Group (Plus Digit), Star Space,
     Group (alt [Seq (Chars ''core'') (Opt (Chars ''s'')),
                 Seq (Chars ''cpu'') (Opt (Chars ''s'')),
                 Seq (Chars ''processor'') (Opt (Chars ''s''))])]"

definition MEMORY_REGEX :: regex where
  "MEMORY_REGEX = seq [Group (Plus Digit), Star Space,
     Group (alt [Chars ''GB'', Chars ''GiB'', Chars ''G'', Chars ''MB'', Chars ''MiB'', Chars ''M'']),
     Star Space, Group (alt [Chars ''RAM'', Chars ''memory''])]"

definition STORAGE_REGEX :: regex where
  "STORAGE_REGEX = seq [Group (Plus Digit), Star Space,
     Group (alt [Chars ''GB'', Chars ''GiB'', Chars ''G'', Chars ''TB'', Chars ''TiB'', Chars ''T'']),
     Star Space, Group (alt [Chars ''storage'', Chars ''disk'', Chars ''space''])]"

definition GPU_REGEX :: regex where
  "GPU_REGEX = Group (alt [Chars ''nvidia'', Chars ''rtx'', Chars ''gtx'', Chars ''a100'',
     Chars ''h100'', Chars ''t4'', Chars ''v100'',
     seq [Chars ''rtx'', Star Space, Cls Digit, Cls Digit, Cls Digit, Cls Digit],
     seq [Chars ''rtx'', Star Space, Cls Digit, Cls Digit, Cls Digit, Cls Digit, Star Space,
          Plus Word]])"

definition GPU_COUNT_REGEX :: regex where
  "GPU_COUNT_REGEX = seq [Group (Plus Digit), Star Space, Chars ''gpu'', Opt (Chars ''s'')]"

definition DURATION_REGEX :: regex where
  "DURATION_REGEX = seq [Group (Plus Digit), Star Space,
     Group (alt [Seq (Chars ''hour'') (Opt (Chars ''s'')),
                 Seq (Chars ''hr'') (Opt (Chars ''s'')),
                 Seq (Chars ''day'') (Opt (Chars ''s'')),
                 Seq (Chars ''week'') (Opt (Chars ''s'')),
                 Seq (Chars ''month'') (Opt (Chars ''s''))])]"

definition REGION_REGEX :: regex where
  "REGION_REGEX = Group (alt [Chars ''us-east'', Chars ''us-west'', Chars ''eu-west'',
     Chars ''eu-central'', Chars ''ap-southeast'', Chars ''ap-northeast'', Chars ''westcoast'',
     Chars ''eastcoast''])"

text \<open>The expression \<open>/(\d+)([a-z]+)/i\<close> of \<open>calculateAmount\<close>.\<close>

definition AMOUNT_DURATION_REGEX :: regex where
  "AMOUNT_DURATION_REGEX = seq [Group (Plus Digit), Group (Plus Lower)]"

text \<open>Every expression above carries the flag \<open>i\<close>.\<close>

definition str_match :: "string \<Rightarrow> regex \<Rightarrow> rmatch option" where
  "str_match s r = exec True r s"

definition extract_cpu :: "string \<Rightarrow> ExtractedParams \<Rightarrow> ExtractedParams" where
  "extract_cpu description params =
     (case str_match description CPU_REGEX of
        None \<Rightarrow> params
      | Some cpuMatch \<Rightarrow> params\<lparr>cpu := Some (parseInt (grp cpuMatch 1))\<rparr>)"

definition extract_memory :: "string \<Rightarrow> ExtractedParams \<Rightarrow> ExtractedParams" where
  "extract_memory description params =
     (case str_match description MEMORY_REGEX of
        None \<Rightarrow> params
      | Some memoryMatch \<Rightarrow>
          (let memoryValue = parseInt (grp memoryMatch 1);
               memoryUnit = toUpperCase (grp memoryMatch 2);
               memoryUnit = (if memoryUnit = ''G'' \<or> memoryUnit = ''GB'' then ''Gi''
                             else if memoryUnit = ''M'' \<or> memoryUnit = ''MB'' then ''Mi''
                             else memoryUnit)
           in params\<lparr>memory := Some (show_nat memoryValue @ memoryUnit)\<rparr>))"

definition extract_storage :: "string \<Rightarrow> ExtractedParams \<Rightarrow> ExtractedParams" where
  "extract_storage description params =
     (case str_match description STORAGE_REGEX of
        None \<Rightarrow> params
      | Some storageMatch \<Rightarrow>
          (let storageValue = parseInt (grp storageMatch 1);
               storageUnit = toUpperCase (grp storageMatch 2);
               storageUnit = (if storageUnit = ''G'' \<or> storageUnit = ''GB'' then ''Gi''
                              else if storageUnit = ''T'' \<or> storageUnit = ''TB'' then ''Ti''
                              else storageUnit)
           in params\<lparr>storage := Some (show_nat storageValue @ storageUnit)\<rparr>))"

definition normalize_gpu_model :: "string \<Rightarrow> string" where
  "normalize_gpu_model gpuModel =
     (if str_includes gpuModel ''rtx'' \<and> str_includes gpuModel ''4090'' then ''rtx4090''
      else if str_includes gpuModel ''rtx'' \<and> str_includes gpuModel ''6000''
              \<and> str_includes gpuModel ''ada'' then ''rtx6000-ada''
      else if gpuModel = ''a100'' then ''a100''
      else if gpuModel = ''h100'' then ''h100''
      else if gpuModel = ''t4'' then ''t4''
      else if gpuModel = ''v100'' then ''v100''
      else ''rtx6000-ada'')"

text \<open>\<open>params.gpu = params.gpu || {}\<close>\<close>

definition gpu_or_empty :: "ExtractedParams \<Rightarrow> GpuSpec" where
  "gpu_or_empty params = (case gpu params of Some g \<Rightarrow> g | None \<Rightarrow> empty_gpu)"

definition extract_gpu :: "string \<Rightarrow> ExtractedParams \<Rightarrow> ExtractedParams" where
  "extract_gpu description params =
     (case str_match description GPU_REGEX of
        None \<Rightarrow> params
      | Some gpuMatch \<Rightarrow>
          (let g = gpu_or_empty params;
               gpuModel = normalize_gpu_model (toLowerCase (grp gpuMatch 1))
           in params\<lparr>gpu := Some (g\<lparr>model := Some gpuModel\<rparr>)\<rparr>))"

definition extract_gpu_count :: "string \<Rightarrow> ExtractedParams \<Rightarrow> ExtractedParams" where
  "extract_gpu_count description params =
     (case str_match description GPU_COUNT_REGEX of
        Some gpuCountMatch \<Rightarrow>
          params\<lparr>gpu := Some ((gpu_or_empty params)\<lparr>units := Some (parseInt (grp gpuCountMatch 1))\<rparr>)\<rparr>
      | None \<Rightarrow>
          (case gpu params of
             Some g \<Rightarrow> params\<lparr>gpu := Some (g\<lparr>units := Some 1\<rparr>)\<rparr>
           | None \<Rightarrow> params))"

definition extract_duration :: "string \<Rightarrow> ExtractedParams \<Rightarrow> ExtractedParams" where
  "extract_duration description params =
     (case str_match description DURATION_REGEX of
        None \<Rightarrow> params
      | Some durationMatch \<Rightarrow>
          (let v = parseInt (grp durationMatch 1);
               unit = toLowerCase (grp durationMatch 2)
           in if startsWith unit ''hour'' \<or> startsWith unit ''hr''
                then params\<lparr>duration := Some (show_nat v @ ''h'')\<rparr>
              else if startsWith unit ''day''
                then params\<lparr>duration := Some (show_nat v @ ''d'')\<rparr>
              else if startsWith unit ''week''
                then params\<lparr>duration := Some (show_nat (v * 7) @ ''d'')\<rparr>
              else if startsWith unit ''month''
                then params\<lparr>duration := Some (show_nat v @ ''mon'')\<rparr>
              else params))"

definition normalize_region :: "string \<Rightarrow> string" where
  "normalize_region r =
     (if r = ''westcoast'' \<or> r = ''us-west'' then ''westcoast''
      else if r = ''eastcoast'' \<or> r = ''us-east'' then ''eastcoast''
      else ''westcoast'')"

definition extract_region :: "string \<Rightarrow> ExtractedParams \<Rightarrow> ExtractedParams" where
  "extract_region description params =
     (case str_match description REGION_REGEX of
        None \<Rightarrow> params
      | Some regionMatch \<Rightarrow>
          params\<lparr>region := Some (normalize_region (toLowerCase (grp regionMatch 1)))\<rparr>)"

definition extract_jupyter :: "string \<Rightarrow> ExtractedParams \<Rightarrow> ExtractedParams" where
  "extract_jupyter description params =
     (if str_includes (toLowerCase description) ''jupyter''
         \<or> str_includes (toLowerCase description) ''notebook''
      then params\<lparr>image' := Some jupyter_image,
                  env := Some [(''JUPYTER_TOKEN'', ''test'')],
                  ports := Some jupyter_ports\<rparr>
      else params)"

definition extract_name :: "ExtractedParams \<Rightarrow> ExtractedParams" where
  "extract_name params =
     (case image' params of
        Some img \<Rightarrow> if img \<noteq> [] \<and> str_includes img ''jupyter''
                    then params\<lparr>name := Some ''py-cuda''\<rparr> else params
      | None \<Rightarrow> params)"

text \<open>Token amount for the duration, at 3 CST an hour.\<close>

definition calculateAmount :: "ExtractedParams \<Rightarrow> nat" where
  "calculateAmount params =
     (case duration params of
        None \<Rightarrow> 6
      | Some d \<Rightarrow>
          if d = [] then 6
          else (case str_match d AMOUNT_DURATION_REGEX of
                  None \<Rightarrow> 6
                | Some durationMatch \<Rightarrow>
                    (let v = parseInt (grp durationMatch 1);
                         unit = toLowerCase (grp durationMatch 2)
                     in if unit = ''h'' then v * 3
                        else if unit = ''d'' then v * 24 * 3
                        else if unit = ''mon'' then v * 30 * 24 * 3
                        else 6)))"

definition extractFromDescription :: "string \<Rightarrow> ExtractedParams" where
  "extractFromDescription description =
     (let params = empty_params;
          params = extract_cpu description params;
          params = extract_memory description params;
          params = extract_storage description params;
          params = extract_gpu description params;
          params = extract_gpu_count description params;
          params = extract_duration description params;
          params = extract_region description params;
          params = extract_jupyter description params;
          params = extract_name params
      in params\<lparr>amount := Some (calculateAmount params)\<rparr>)"

text \<open>
  \<open>!x\<close> on an optional number or string: absent, \<open>0\<close> and the empty string are falsy.
\<close>

definition falsy_num :: "nat option \<Rightarrow> bool" where
  "falsy_num x = (case x of None \<Rightarrow> True | Some n \<Rightarrow> n = 0)"

definition falsy_str :: "string option \<Rightarrow> bool" where
  "falsy_str x = (case x of None \<Rightarrow> True | Some s \<Rightarrow> s = [])"

definition gpu_workload :: "ExtractedParams \<Rightarrow> bool" where
  "gpu_workload params =
     (case image' params of
        None \<Rightarrow> False
      | Some img \<Rightarrow> img \<noteq> [] \<and> (str_includes img ''cuda'' \<or> str_includes img ''pytorch''
                      \<or> str_includes img ''tensorflow''))"

definition identifyMissingParams :: "ExtractedParams \<Rightarrow> string list" where
  "identifyMissingParams params =
     (let missingParams = [];
          missingParams = (if falsy_num (cpu params) then missingParams @ [''CPU cores'']
                           else missingParams);
          missingParams = (if falsy_str (memory params) then missingParams @ [''memory (RAM)'']
                           else missingParams);
          missingParams = (if falsy_str (storage params) then missingParams @ [''storage'']
                           else missingParams);
          missingParams = (if falsy_str (duration params) then missingParams @ [''duration'']
                           else missingParams);
          missingParams = (if gpu_workload params
                           then (if gpu params = None then missingParams @ [''GPU model'']
                                 else missingParams)
                           else missingParams)
      in missingParams)"

text \<open>
  Object spread. \<open>override new old\<close> is a key of \<open>{...old, ...new}\<close>; \<open>obj_spread a b\<close> is
  \<open>{...a, ...b}\<close> on objects with string keys: a key of \<open>b\<close> that \<open>a\<close> has takes \<open>b\<close>'s value
  in \<open>a\<close>'s place, a new key goes to the end.
\<close>

definition override :: "'a option \<Rightarrow> 'a option \<Rightarrow> 'a option" where
  "override new old = (case new of Some x \<Rightarrow> Some x | None \<Rightarrow> old)"

fun obj_set :: "string \<Rightarrow> 'v \<Rightarrow> (string \<times> 'v) list \<Rightarrow> (string \<times> 'v) list" where
  "obj_set k v [] = [(k, v)]"
| "obj_set k v ((k', v') # kvs) = (if k' = k then (k, v) # kvs else (k', v') # obj_set k v kvs)"

definition obj_spread :: "(string \<times> 'v) list \<Rightarrow> (string \<times> 'v) list \<Rightarrow> (string \<times> 'v) list" where
  "obj_spread a b = foldl (\<lambda>acc (k, v). obj_set k v acc) a b"

definition opt_obj :: "(string \<times> 'v) list option \<Rightarrow> (string \<times> 'v) list" where
  "opt_obj x = (case x of Some kvs \<Rightarrow> kvs | None \<Rightarrow> [])"

definition gpu_spread :: "GpuSpec option \<Rightarrow> GpuSpec option \<Rightarrow> GpuSpec" where
  "gpu_spread a b =
     (let ga = (case a of Some g \<Rightarrow> g | None \<Rightarrow> empty_gpu);
          gb = (case b of Some g \<Rightarrow> g | None \<Rightarrow> empty_gpu)
      in \<lparr>units = override (units gb) (units ga), model = override (model gb) (model ga)\<rparr>)"

text \<open>\<open>{...a, ...b}\<close> on parameter sets: a shallow merge, key by key of the top level.\<close>

definition params_spread :: "ExtractedParams \<Rightarrow> ExtractedParams \<Rightarrow> ExtractedParams" where
  "params_spread a b = \<lparr>
     image' = override (image' b) (image' a),
     pullPolicy = override (pullPolicy b) (pullPolicy a),
     ports = override (ports b) (ports a),
     env = override (env b) (env a),
     cpu = override (cpu b) (cpu a),
     memory = override (memory b) (memory a),
     storage = override (storage b) (storage a),
     gpu = override (gpu b) (gpu a),
     name = override (name b) (name a),
     duration = override (duration b) (duration a),
     mode = override (mode b) (mode a),
     region = override (region b) (region a),
     amount = override (amount b) (amount a),
     count = override (count b) (count a)\<rparr>"

definition mergeWithDefaults :: "ExtractedParams \<Rightarrow> ExtractedParams" where
  "mergeWithDefaults params =
     (params_spread DEFAULT_PARAMS params)\<lparr>
        gpu := Some (gpu_spread (gpu DEFAULT_PARAMS) (gpu params)),
        env := Some (obj_spread (opt_obj (env DEFAULT_PARAMS)) (opt_obj (env params)))\<rparr>"

section \<open>Documents\<close>

text \<open>
  A deployment document is handled as the value that the YAML library loads and dumps: a
  tree of objects, arrays, strings, numbers, booleans and \<open>null\<close>. The keys of an object
  are distinct and stand in the order in which \<open>Object.keys\<close> lists them; a loaded tree
  shares no node (the text uses no YAML alias). \<open>JUndefined\<close> is the value of a property
  that is not there, and what the library loads from an empty text.
\<close>

datatype jv =
    JUndefined
  | JNull
  | JBool bool
  | JNum int
  | JStr string
  | JArr "jv list"
  | JObj "(string \<times> jv) list"

text \<open>What the runtime throws, and the message it carries (as Node 16 and later word it).\<close>

datatype js_error =
    ReadOfNullish jv string
  | WriteToNullish jv string
  | WriteToPrimitive jv string
  | KeysOfNullish
  | LibraryError string

fun nullish_name :: "jv \<Rightarrow> string" where
  "nullish_name JNull = ''null''"
| "nullish_name v = ''undefined''"

definition show_int :: "int \<Rightarrow> string" where
  "show_int i = (if i < 0 then ''-'' @ show_nat (nat (- i)) else show_nat (nat i))"

fun primitive_name :: "jv \<Rightarrow> string" where
  "primitive_name (JStr s) = ''string '' @ [CHR 0x27] @ s @ [CHR 0x27]"
| "primitive_name (JNum n) = ''number '' @ [CHR 0x27] @ show_int n @ [CHR 0x27]"
| "primitive_name (JBool b) = ''boolean '' @ [CHR 0x27] @ (if b then ''true'' else ''false'') @ [CHR 0x27]"
| "primitive_name v = []"

fun error_message :: "js_error \<Rightarrow> string" where
  "error_message (ReadOfNullish v k) =
     ''Cannot read properties of '' @ nullish_name v @ '' (reading '' @ [CHR 0x27] @ k @ [CHR 0x27] @ '')''"
| "error_message (WriteToNullish v k) =
     ''Cannot set properties of '' @ nullish_name v @ '' (setting '' @ [CHR 0x27] @ k @ [CHR 0x27] @ '')''"
| "error_message (WriteToPrimitive v k) =
     ''Cannot create property '' @ [CHR 0x27] @ k @ [CHR 0x27] @ '' on '' @ primitive_name v"
| "error_message KeysOfNullish = ''Cannot convert undefined or null to object''"
| "error_message (LibraryError msg) = msg"

fun nullish :: "jv \<Rightarrow> bool" where
  "nullish JUndefined = True"
| "nullish JNull = True"
| "nullish v = False"

fun truthy :: "jv \<Rightarrow> bool" where
  "truthy JUndefined = False"
| "truthy JNull = False"
| "truthy (JBool b) = b"
| "truthy (JNum n) = (n \<noteq> 0)"
| "truthy (JStr s) = (s \<noteq> [])"
| "truthy (JArr xs) = True"
| "truthy (JObj kvs) = True"

text \<open>
  The index that a property name denotes on an array or a string: the name is the decimal
  text of a number.
\<close>

definition array_index :: "string \<Rightarrow> nat option" where
  "array_index k = (if k \<noteq> [] \<and> list_all is_digit k \<and> show_nat (parseInt k) = k
                    then Some (parseInt k) else None)"

text \<open>
  \<open>v[k]\<close> on a value that is neither \<open>null\<close> nor \<open>undefined\<close>: an own property, an
  element, or \<open>length\<close>. The program reads fixed names (\<open>version\<close>, \<open>services\<close>, ...) and
  names that \<open>Object.keys\<close> gave it, never a name that only the prototype has.
\<close>

fun own_prop :: "jv \<Rightarrow> string \<Rightarrow> jv" where
  "own_prop (JObj kvs) k = (case map_of kvs k of Some v \<Rightarrow> v | None \<Rightarrow> JUndefined)"
| "own_prop (JArr xs) k =
     (if k = ''length'' then JNum (int (length xs))
      else (case array_index k of
              Some i \<Rightarrow> if i < length xs then xs ! i else JUndefined
            | None \<Rightarrow> JUndefined))"
| "own_prop (JStr s) k =
     (if k = ''length'' then JNum (int (length s))
      else (case array_index k of
              Some i \<Rightarrow> if i < length s then JStr [s ! i] else JUndefined
            | None \<Rightarrow> JUndefined))"
| "own_prop v k = JUndefined"

definition get_prop :: "jv \<Rightarrow> string \<Rightarrow> js_error + jv" where
  "get_prop v k = (if nullish v then Inl (ReadOfNullish v k) else Inr (own_prop v k))"

fun own_keys :: "jv \<Rightarrow> string list" where
  "own_keys (JObj kvs) = map fst kvs"
| "own_keys (JArr xs) = map show_nat [0..<length xs]"
| "own_keys (JStr s) = map show_nat [0..<length s]"
| "own_keys v = []"

definition Object_keys :: "jv \<Rightarrow> js_error + string list" where
  "Object_keys v = (if nullish v then Inl KeysOfNullish else Inr (own_keys v))"

text \<open>
  The property name that \<open>obj[Object.keys(x)[0]]\<close> reads: the first key, or the text
  \<open>undefined\<close> when there is none.
\<close>

definition first_key :: "string list \<Rightarrow> string" where
  "first_key ks = (case ks of [] \<Rightarrow> ''undefined'' | k # _ \<Rightarrow> k)"

text \<open>
  \<open>obj.k = v\<close> in a module (strict mode). On an array it adds a named property, which is no
  element and which the library does not dump; the program writes fixed names only, none of
  them an index or \<open>length\<close>.
\<close>

fun set_prop :: "jv \<Rightarrow> string \<Rightarrow> jv \<Rightarrow> js_error + jv" where
  "set_prop (JObj kvs) k v = Inr (JObj (obj_set k v kvs))"
| "set_prop (JArr xs) k v = Inr (JArr xs)"
| "set_prop JUndefined k v = Inl (WriteToNullish JUndefined k)"
| "set_prop JNull k v = Inl (WriteToNullish JNull k)"
| "set_prop p k v = Inl (WriteToPrimitive p k)"

text \<open>
  The program takes a reference to a nested object (\<open>const service = config.services[name]\<close>)
  and changes the object through it. On a tree this is: read the child, change it, and put
  the changed child back where it was read. \<open>put_child\<close> replaces the value of a
  property that is there and adds none.
\<close>

fun replace_value :: "string \<Rightarrow> 'v \<Rightarrow> (string \<times> 'v) list \<Rightarrow> (string \<times> 'v) list" where
  "replace_value k c [] = []"
| "replace_value k c ((k', v) # kvs) = (if k' = k then (k', c) # kvs else (k', v) # replace_value k c kvs)"

fun put_child :: "jv \<Rightarrow> string \<Rightarrow> jv \<Rightarrow> jv" where
  "put_child (JObj kvs) k c = JObj (replace_value k c kvs)"
| "put_child (JArr xs) k c =
     (case array_index k of
        Some i \<Rightarrow> if i < length xs then JArr (xs[i := c]) else JArr xs
      | None \<Rightarrow> JArr xs)"
| "put_child v k c = v"

definition with_child :: "jv \<Rightarrow> string \<Rightarrow> (jv \<Rightarrow> js_error + jv) \<Rightarrow> js_error + jv" where
  "with_child obj k f =
     (case get_prop obj k of
        Inl e \<Rightarrow> Inl e
      | Inr child \<Rightarrow> (case f child of Inl e \<Rightarrow> Inl e | Inr child' \<Rightarrow> Inr (put_child obj k child')))"

text \<open>A tree without \<open>undefined\<close>: the library dumps such a tree and refuses any other.\<close>

fun defined_tree :: "jv \<Rightarrow> bool" where
  "defined_tree JUndefined = False"
| "defined_tree (JArr xs) = list_all defined_tree xs"
| "defined_tree (JObj kvs) = list_all (\<lambda>kv. defined_tree (snd kv)) kvs"
| "defined_tree v = True"

section \<open>The YAML generator\<close>

definition or_str :: "string option \<Rightarrow> string \<Rightarrow> string" where
  \<comment> \<open>\<open>x || d\<close> on an optional string\<close>
  "or_str x d = (case x of Some s \<Rightarrow> if s = [] then d else s | None \<Rightarrow> d)"

definition or_num :: "nat option \<Rightarrow> nat \<Rightarrow> nat" where
  \<comment> \<open>\<open>x || d\<close> on an optional number\<close>
  "or_num x d = (case x of Some n \<Rightarrow> if n = 0 then d else n | None \<Rightarrow> d)"

fun pull_policy_text :: "PullPolicy \<Rightarrow> string" where
  "pull_policy_text Always = ''Always''"
| "pull_policy_text IfNotPresent = ''IfNotPresent''"
| "pull_policy_text Never = ''Never''"

fun mode_text :: "Mode \<Rightarrow> string" where
  "mode_text Provider = ''provider''"
| "mode_text Fizz = ''fizz''"

definition expose_entry :: "PortSpec \<Rightarrow> jv" where
  "expose_entry p = JObj [
     (''port'', JNum (int (port p))),
     (''as'', JNum (int (or_num (as p) (port p)))),
     (''to'', JArr [JObj [(''global'', JBool (case global p of Some b \<Rightarrow> b | None \<Rightarrow> True))]])]"

definition default_expose :: "jv list" where
  "default_expose = [
     JObj [(''port'', JNum 8888), (''as'', JNum 8888), (''to'', JArr [JObj [(''global'', JBool True)]])],
     JObj [(''port'', JNum 3000), (''as'', JNum 3000), (''to'', JArr [JObj [(''global'', JBool True)]])]]"

definition generateExposeConfig :: "ExtractedParams \<Rightarrow> jv list" where
  "generateExposeConfig params =
     (case ports params of
        Some ps \<Rightarrow> if 0 < length ps then map expose_entry ps else default_expose
      | None \<Rightarrow> default_expose)"

definition generateEnvConfig :: "ExtractedParams \<Rightarrow> jv list" where
  "generateEnvConfig params =
     (case env params of
        Some e \<Rightarrow> map (\<lambda>(k, v). JStr (k @ ''='' @ v)) e
      | None \<Rightarrow> [JStr ''JUPYTER_TOKEN=test''])"

definition gpu_resource :: "GpuSpec \<Rightarrow> jv" where
  "gpu_resource g = JObj [
     (''units'', JNum (int (or_num (units g) 1))),
     (''attributes'', JObj [(''vendor'', JObj [(''nvidia'',
        JArr [JObj [(''model'', JStr (or_str (model g) ''rtx6000-ada''))]])])])]"

definition generateResourcesConfig :: "ExtractedParams \<Rightarrow> jv" where
  "generateResourcesConfig params =
     (let resources = [
            (''cpu'', JObj [(''units'', JNum (int (or_num (cpu params) 16)))]),
            (''memory'', JObj [(''size'', JStr (or_str (memory params) ''64Gi''))])];
          resources = (case storage params of
                         Some s \<Rightarrow>
                           if s \<noteq> [] then obj_set ''storage'' (JArr [JObj [(''size'', JStr s)]]) resources
                           else obj_set ''storage'' (JArr [JObj [(''size'', JStr ''500Gi'')]]) resources
                       | None \<Rightarrow> obj_set ''storage'' (JArr [JObj [(''size'', JStr ''500Gi'')]]) resources);
          resources = (case gpu params of
                         Some g \<Rightarrow> obj_set ''gpu'' (gpu_resource g) resources
                       | None \<Rightarrow> resources)
      in JObj resources)"

text \<open>The object that \<open>generateYaml\<close> builds and hands to the library's \<open>dump\<close>.\<close>

definition yamlConfig :: "ExtractedParams \<Rightarrow> jv" where
  "yamlConfig params =
     (let nm = or_str (name params) ''py-cuda'';
          rg = or_str (region params) ''westcoast''
      in JObj [
        (''version'', JStr ''1.0''),
        (''services'', JObj [(nm, JObj [
            (''image'', JStr (or_str (image' params) jupyter_image)),
            (''pull_policy'', JStr (case pullPolicy params of Some pp \<Rightarrow> pull_policy_text pp
                                                          | None \<Rightarrow> ''IfNotPresent'')),
            (''expose'', JArr (generateExposeConfig params)),
            (''env'', JArr (generateEnvConfig params))])]),
        (''profiles'', JObj [
            (''name'', JStr nm),
            (''duration'', JStr (or_str (duration params) ''2h'')),
            (''mode'', JStr (case mode params of Some m \<Rightarrow> mode_text m | None \<Rightarrow> ''provider'')),
            (''compute'', JObj [(nm, JObj [(''resources'', generateResourcesConfig params)])]),
            (''placement'', JObj [(rg, JObj [(''pricing'', JObj [(nm, JObj [
                (''token'', JStr ''CST''),
                (''amount'', JNum (int (or_num (amount params) 15)))])])])])]),
        (''deployment'', JObj [(nm, JObj [(rg, JObj [
            (''profile'', JStr nm),
            (''count'', JNum (int (or_num (count params) 1)))])])])])"

text \<open>
  The YAML library is not part of the repository: \<open>dump\<close> and \<open>load\<close> are parameters.
  Each returns a text or a tree, or throws.
\<close>

type_synonym yaml_dump = "jv \<Rightarrow> js_error + string"
type_synonym yaml_load = "string \<Rightarrow> js_error + jv"

definition generateYaml :: "yaml_dump \<Rightarrow> ExtractedParams \<Rightarrow> js_error + string" where
  "generateYaml dump params = dump (yamlConfig params)"

section \<open>The validator\<close>

text \<open>
  The body of the \<open>try\<close> block pushes messages onto \<open>errors\<close> and may throw in between:
  a check takes the messages pushed so far and returns them with what it pushed, and the
  exception if it threw.
\<close>

type_synonym checked = "string list \<times> js_error option"

definition and_then :: "checked \<Rightarrow> (string list \<Rightarrow> checked) \<Rightarrow> checked" where
  "and_then r f = (case r of (errors, None) \<Rightarrow> f errors | (errors, Some e) \<Rightarrow> (errors, Some e))"

definition quoted :: "string \<Rightarrow> string" where
  "quoted s = [CHR 0x22] @ s @ [CHR 0x22]"

definition check_version :: "jv \<Rightarrow> string list \<Rightarrow> checked" where
  "check_version config errors =
     (case get_prop config ''version'' of
        Inl e \<Rightarrow> (errors, Some e)
      | Inr v \<Rightarrow> (if v \<noteq> JStr ''1.0'' then errors @ [''Version must be '' @ quoted ''1.0'']
                  else errors, None))"

definition check_services :: "jv \<Rightarrow> string list \<Rightarrow> checked" where
  "check_services config errors =
     (case get_prop config ''services'' of
        Inl e \<Rightarrow> (errors, Some e)
      | Inr services \<Rightarrow>
          (if \<not> truthy services \<or> length (own_keys services) = 0
           then errors @ [''At least one service must be defined''] else errors, None))"

fun check_tokens :: "jv \<Rightarrow> string \<Rightarrow> string list \<Rightarrow> string list \<Rightarrow> checked" where
  "check_tokens pricings regionName [] errors = (errors, None)"
| "check_tokens pricings regionName (profile # profiles) errors =
     (case get_prop (own_prop pricings profile) ''token'' of
        Inl e \<Rightarrow> (errors, Some e)
      | Inr token \<Rightarrow>
          check_tokens pricings regionName profiles
            (if token \<noteq> JStr ''CST''
             then errors @ [''Token must be '' @ quoted ''CST'' @ '' for profile '' @ quoted profile
                            @ '' in region '' @ quoted regionName]
             else errors))"

fun check_regions :: "jv \<Rightarrow> string list \<Rightarrow> string list \<Rightarrow> checked" where
  "check_regions placements [] errors = (errors, None)"
| "check_regions placements (regionName # regions) errors =
     (case get_prop (own_prop placements regionName) ''pricing'' of
        Inl e \<Rightarrow> (errors, Some e)
      | Inr pricing \<Rightarrow>
          and_then
            (if \<not> truthy pricing \<or> length (own_keys pricing) = 0
             then (errors @ [''Pricing must be defined for region '' @ quoted regionName], None)
             else check_tokens pricing regionName (own_keys pricing) errors)
            (check_regions placements regions))"

definition check_profiles :: "jv \<Rightarrow> string list \<Rightarrow> checked" where
  "check_profiles config errors =
     (case get_prop config ''profiles'' of
        Inl e \<Rightarrow> (errors, Some e)
      | Inr profiles \<Rightarrow>
          if \<not> truthy profiles then (errors @ [''Profiles must be defined''], None)
          else
            (let errors = (if \<not> truthy (own_prop profiles ''duration'')
                           then errors @ [''Duration must be specified''] else errors);
                 errors = (if \<not> truthy (own_prop profiles ''mode'')
                           then errors @ [''Mode must be specified''] else errors);
                 compute = own_prop profiles ''compute'';
                 errors = (if \<not> truthy compute \<or> length (own_keys compute) = 0
                           then errors @ [''Compute resources must be defined''] else errors);
                 placement = own_prop profiles ''placement''
             in if \<not> truthy placement \<or> length (own_keys placement) = 0
                then (errors @ [''Placement must be defined''], None)
                else check_regions placement (own_keys placement) errors))"

definition check_deployment :: "jv \<Rightarrow> string list \<Rightarrow> checked" where
  "check_deployment config errors =
     (case get_prop config ''deployment'' of
        Inl e \<Rightarrow> (errors, Some e)
      | Inr deployment \<Rightarrow>
          (if \<not> truthy deployment \<or> length (own_keys deployment) = 0
           then errors @ [''Deployment must be defined''] else errors, None))"

definition validate_body :: "jv \<Rightarrow> checked" where
  "validate_body config =
     and_then (and_then (and_then (check_version config [])
       (check_services config)) (check_profiles config)) (check_deployment config)"

record validation =
  valid :: bool
  errors :: "string list"

definition validateYaml :: "yaml_load \<Rightarrow> string \<Rightarrow> validation" where
  "validateYaml load yamlText =
     (let errs =
        (case load yamlText of
           Inl e \<Rightarrow> [''Invalid YAML: '' @ error_message e]
         | Inr config \<Rightarrow>
             (case validate_body config of
                (errs, None) \<Rightarrow> errs
              | (errs, Some e) \<Rightarrow> errs @ [''Invalid YAML: '' @ error_message e]))
      in \<lparr>valid = (length errs = 0), errors = errs\<rparr>)"

text \<open>A check keeps the messages that were pushed before it: it only adds to them.\<close>

definition keeps :: "string list \<Rightarrow> checked \<Rightarrow> bool" where
  "keeps errs r = (\<exists>rest. fst r = errs @ rest)"

section \<open>The updater\<close>

definition bind_e :: "js_error + 'a \<Rightarrow> ('a \<Rightarrow> js_error + 'b) \<Rightarrow> js_error + 'b" where
  "bind_e r f = (case r of Inl e \<Rightarrow> Inl e | Inr x \<Rightarrow> f x)"

text \<open>
  \<open>if (params.x) { ... }\<close>: a string or a number that is there and truthy, or an object, an
  array or an enumeration value that is there.
\<close>

definition when_str :: "string option \<Rightarrow> (string \<Rightarrow> jv \<Rightarrow> js_error + jv) \<Rightarrow> jv \<Rightarrow> js_error + jv" where
  "when_str x f obj = (case x of Some s \<Rightarrow> if s \<noteq> [] then f s obj else Inr obj | None \<Rightarrow> Inr obj)"

definition when_num :: "nat option \<Rightarrow> (nat \<Rightarrow> jv \<Rightarrow> js_error + jv) \<Rightarrow> jv \<Rightarrow> js_error + jv" where
  "when_num x f obj = (case x of Some n \<Rightarrow> if n \<noteq> 0 then f n obj else Inr obj | None \<Rightarrow> Inr obj)"

definition when_some :: "'a option \<Rightarrow> ('a \<Rightarrow> jv \<Rightarrow> js_error + jv) \<Rightarrow> jv \<Rightarrow> js_error + jv" where
  "when_some x f obj = (case x of Some y \<Rightarrow> f y obj | None \<Rightarrow> Inr obj)"

definition update_service :: "ExtractedParams \<Rightarrow> jv \<Rightarrow> js_error + jv" where
  "update_service params service =
     bind_e (when_str (image' params) (\<lambda>img s. set_prop s ''image'' (JStr img)) service) (\<lambda>service.
     bind_e (when_some (pullPolicy params)
               (\<lambda>pp s. set_prop s ''pull_policy'' (JStr (pull_policy_text pp))) service) (\<lambda>service.
     bind_e (when_some (ports params)
               (\<lambda>ps s. set_prop s ''expose'' (JArr (generateExposeConfig params))) service) (\<lambda>service.
     when_some (env params) (\<lambda>e s. set_prop s ''env'' (JArr (generateEnvConfig params))) service)))"

definition update_services :: "ExtractedParams \<Rightarrow> jv \<Rightarrow> js_error + jv" where
  "update_services params config =
     bind_e (get_prop config ''services'') (\<lambda>services.
       if truthy services
       then with_child config ''services'' (\<lambda>services.
              with_child services (first_key (own_keys services)) (update_service params))
       else Inr config)"

definition update_resources :: "ExtractedParams \<Rightarrow> jv \<Rightarrow> js_error + jv" where
  "update_resources params resources =
     bind_e (when_num (cpu params)
               (\<lambda>n r. set_prop r ''cpu'' (JObj [(''units'', JNum (int n))])) resources) (\<lambda>resources.
     bind_e (when_str (memory params)
               (\<lambda>m r. set_prop r ''memory'' (JObj [(''size'', JStr m)])) resources) (\<lambda>resources.
     bind_e (when_str (storage params)
               (\<lambda>s r. set_prop r ''storage'' (JArr [JObj [(''size'', JStr s)]])) resources) (\<lambda>resources.
     when_some (gpu params) (\<lambda>g r. set_prop r ''gpu'' (gpu_resource g)) resources)))"

definition update_compute :: "ExtractedParams \<Rightarrow> jv \<Rightarrow> js_error + jv" where
  "update_compute params profiles =
     bind_e (get_prop profiles ''compute'') (\<lambda>computes.
       if truthy computes
       then with_child profiles ''compute'' (\<lambda>computes.
              with_child computes (first_key (own_keys computes)) (\<lambda>compute.
                bind_e (get_prop compute ''resources'') (\<lambda>resources.
                  if truthy resources
                  then with_child compute ''resources'' (update_resources params)
                  else Inr compute)))
       else Inr profiles)"

definition update_pricing :: "ExtractedParams \<Rightarrow> jv \<Rightarrow> js_error + jv" where
  "update_pricing params pricing =
     bind_e (set_prop pricing ''token'' (JStr ''CST'')) (\<lambda>pricing.
     when_num (amount params) (\<lambda>a p. set_prop p ''amount'' (JNum (int a))) pricing)"

definition update_placement :: "ExtractedParams \<Rightarrow> jv \<Rightarrow> js_error + jv" where
  "update_placement params profiles =
     bind_e (get_prop profiles ''placement'') (\<lambda>placements.
       if truthy placements
       then with_child profiles ''placement'' (\<lambda>placements.
              with_child placements (first_key (own_keys placements)) (\<lambda>placement.
                bind_e (get_prop placement ''pricing'') (\<lambda>pricings.
                  if truthy pricings
                  then with_child placement ''pricing'' (\<lambda>pricings.
                         with_child pricings (first_key (own_keys pricings)) (update_pricing params))
                  else Inr placement)))
       else Inr profiles)"

definition update_profiles :: "ExtractedParams \<Rightarrow> jv \<Rightarrow> js_error + jv" where
  "update_profiles params config =
     bind_e (get_prop config ''profiles'') (\<lambda>profiles.
       if truthy profiles
       then with_child config ''profiles'' (\<lambda>profiles.
              bind_e (when_str (name params) (\<lambda>n p. set_prop p ''name'' (JStr n)) profiles) (\<lambda>profiles.
              bind_e (when_str (duration params)
                        (\<lambda>d p. set_prop p ''duration'' (JStr d)) profiles) (\<lambda>profiles.
              bind_e (when_some (mode params)
                        (\<lambda>m p. set_prop p ''mode'' (JStr (mode_text m))) profiles) (\<lambda>profiles.
              bind_e (update_compute params profiles) (update_placement params)))))
       else Inr config)"

definition update_deployment_region :: "ExtractedParams \<Rightarrow> jv \<Rightarrow> js_error + jv" where
  "update_deployment_region params regionEntry =
     bind_e (when_str (name params) (\<lambda>n r. set_prop r ''profile'' (JStr n)) regionEntry) (\<lambda>regionEntry.
     when_num (count params) (\<lambda>c r. set_prop r ''count'' (JNum (int c))) regionEntry)"

definition update_deployment :: "ExtractedParams \<Rightarrow> jv \<Rightarrow> js_error + jv" where
  "update_deployment params config =
     bind_e (get_prop config ''deployment'') (\<lambda>deployments.
       if truthy deployments
       then with_child config ''deployment'' (\<lambda>deployments.
              with_child deployments (first_key (own_keys deployments)) (\<lambda>deployment.
                bind_e (Object_keys deployment) (\<lambda>ks.
                  with_child deployment (first_key ks) (update_deployment_region params))))
       else Inr config)"

definition update_config :: "ExtractedParams \<Rightarrow> jv \<Rightarrow> js_error + jv" where
  "update_config params config =
     bind_e (update_services params config) (\<lambda>config.
     bind_e (update_profiles params config) (update_deployment params))"

text \<open>Whatever is thrown while loading, updating or dumping, a new document is generated.\<close>

definition updateYaml :: "yaml_load \<Rightarrow> yaml_dump \<Rightarrow> string \<Rightarrow> ExtractedParams \<Rightarrow> js_error + string" where
  "updateYaml load dump existingYaml params =
     (case bind_e (load existingYaml) (\<lambda>config. bind_e (update_config params config) dump) of
        Inr yamlText \<Rightarrow> Inr yamlText
      | Inl e \<Rightarrow> generateYaml dump params)"

text \<open>
  The shape of a document as the generator writes it, with any names and values: the
  sections \<open>services\<close>, \<open>profiles\<close> and \<open>deployment\<close> are objects; every service, every
  compute profile with its resources, every placement region with its pricing entries, and
  every deployment with its region entries is an object; and there is at least one of each.
\<close>

fun is_obj :: "jv \<Rightarrow> bool" where
  "is_obj (JObj kvs) = True"
| "is_obj v = False"

definition objs_of_objs :: "jv \<Rightarrow> bool" where
  \<comment> \<open>an object with at least one entry, every entry an object\<close>
  "objs_of_objs v = (is_obj v \<and> own_keys v \<noteq> [] \<and> list_all (\<lambda>k. is_obj (own_prop v k)) (own_keys v))"

definition well_formed :: "jv \<Rightarrow> bool" where
  "well_formed config =
     (is_obj config
      \<and> objs_of_objs (own_prop config ''services'')
      \<and> is_obj (own_prop config ''profiles'')
      \<and> objs_of_objs (own_prop (own_prop config ''profiles'') ''compute'')
      \<and> list_all (\<lambda>k. is_obj (own_prop (own_prop (own_prop (own_prop config ''profiles'') ''compute'') k) ''resources''))
           (own_keys (own_prop (own_prop config ''profiles'') ''compute''))
      \<and> objs_of_objs (own_prop (own_prop config ''profiles'') ''placement'')
      \<and> list_all (\<lambda>k. objs_of_objs (own_prop (own_prop (own_prop (own_prop config ''profiles'') ''placement'') k) ''pricing''))
           (own_keys (own_prop (own_prop config ''profiles'') ''placement''))
      \<and> objs_of_objs (own_prop config ''deployment'')
      \<and> list_all (\<lambda>k. objs_of_objs (own_prop (own_prop config ''deployment'') k))
           (own_keys (own_prop config ''deployment'')))"

text \<open>
  Reading and writing the value at a path of property names. Writing changes objects only:
  the property at the end of the path takes the new value, in its place if it is there and
  as a new last property otherwise.
\<close>

fun get_path :: "jv \<Rightarrow> string list \<Rightarrow> jv" where
  "get_path v [] = v"
| "get_path v (k # ks) = get_path (own_prop v k) ks"

fun set_at :: "jv \<Rightarrow> string \<Rightarrow> jv \<Rightarrow> jv" where
  "set_at (JObj kvs) k x = JObj (obj_set k x kvs)"
| "set_at v k x = v"

fun put_path :: "jv \<Rightarrow> string list \<Rightarrow> jv \<Rightarrow> jv" where
  "put_path v [] x = x"
| "put_path v (k # ks) x = set_at v k (put_path (own_prop v k) ks x)"

text \<open>
  The path of the pricing token that the updater writes: in the first placement region, the
  first pricing entry.
\<close>

definition token_path :: "jv \<Rightarrow> string list" where
  "token_path config =
     (let placements = get_path config [''profiles'', ''placement''];
          r = first_key (own_keys placements);
          pricings = get_path placements [r, ''pricing''];
          p = first_key (own_keys pricings)
      in [''profiles'', ''placement'', r, ''pricing'', p, ''token''])"

text \<open>
  \<open>objs_along v p\<close>: the values on the path \<open>p\<close> from \<open>v\<close>, the last one apart, are
  objects. \<open>diverge q p\<close>: the paths \<open>q\<close> and \<open>p\<close> part at some property name, so neither
  is the beginning of the other.
\<close>

fun objs_along :: "jv \<Rightarrow> string list \<Rightarrow> bool" where
  "objs_along v [] = True"
| "objs_along v (k # ks) = (is_obj v \<and> objs_along (own_prop v k) ks)"

fun diverge :: "string list \<Rightarrow> string list \<Rightarrow> bool" where
  "diverge (a # p) (b # q) = (a \<noteq> b \<or> diverge p q)"
| "diverge p q = False"


section \<open>The language model behind the enhancer\<close>

text \<open>
  The model's service and \<open>JSON.parse\<close> are not part of the repository; they are
  parameters. A call of the service takes what the prompt is built from and returns the
  content blocks of the reply, or throws. \<open>JSON.parse\<close> returns the parsed object, read as
  a parameter set as the source's cast does, or throws (\<open>None\<close>).
\<close>

datatype content_block = TextBlock string | OtherBlock

type_synonym enhance_api = "string \<Rightarrow> ExtractedParams \<Rightarrow> js_error + content_block list"
type_synonym question_api = "string list \<Rightarrow> string \<Rightarrow> js_error + content_block list"
type_synonym json_parse = "string \<Rightarrow> ExtractedParams option"

text \<open>The expression \<open>/\{[\s\S]*\}/\<close> of \<open>parseClaudeResponse\<close>; it has no flag.\<close>

definition JSON_OBJECT_REGEX :: regex where
  "JSON_OBJECT_REGEX = seq [Chars ''{'', Star AnyChar, Chars ''}'']"

definition parseClaudeResponse :: "json_parse \<Rightarrow> string \<Rightarrow> ExtractedParams \<Rightarrow> ExtractedParams" where
  "parseClaudeResponse parse response originalParams =
     (case exec False JSON_OBJECT_REGEX response of
        Some jsonMatch \<Rightarrow>
          (case parse (matched jsonMatch) of
             Some enhancedParams \<Rightarrow>
               if amount enhancedParams = None
               then enhancedParams\<lparr>amount := Some (or_num (amount originalParams) 15)\<rparr>
               else enhancedParams
           | None \<Rightarrow> originalParams)
      | None \<Rightarrow> originalParams)"

text \<open>
  \<open>'text' in content ? content.text : ''\<close> on the first block; without a first block the
  test throws, inside the \<open>try\<close>.
\<close>

fun block_text :: "content_block \<Rightarrow> string" where
  "block_text (TextBlock t) = t"
| "block_text OtherBlock = []"

definition enhanceWithClaude ::
  "enhance_api \<Rightarrow> json_parse \<Rightarrow> string \<Rightarrow> ExtractedParams \<Rightarrow> ExtractedParams" where
  "enhanceWithClaude create parse description extractedParams =
     (case create description extractedParams of
        Inl e \<Rightarrow> extractedParams
      | Inr content \<Rightarrow>
          (case content of
             [] \<Rightarrow> extractedParams
           | block # _ \<Rightarrow> parseClaudeResponse parse (block_text block) extractedParams))"

definition key_given :: "string option \<Rightarrow> bool" where
  \<comment> \<open>\<open>if (claudeApiKey)\<close>\<close>
  "key_given k = (case k of Some s \<Rightarrow> s \<noteq> [] | None \<Rightarrow> False)"

definition processDescription ::
  "enhance_api \<Rightarrow> json_parse \<Rightarrow> string \<Rightarrow> string option \<Rightarrow> ExtractedParams \<times> string list" where
  "processDescription create parse description claudeApiKey =
     (let params = extractFromDescription description;
          params = (if key_given claudeApiKey
                    then enhanceWithClaude create parse description params else params);
          missing = identifyMissingParams params;
          params = (if length missing = 0 then mergeWithDefaults params else params)
      in (params, missing))"

text \<open>
  The parameter set of \<open>processDescription\<close> before the missing parameters are identified
  and the defaults merged in.
\<close>

definition pre_merge ::
  "enhance_api \<Rightarrow> json_parse \<Rightarrow> string \<Rightarrow> string option \<Rightarrow> ExtractedParams" where
  "pre_merge create parse description claudeApiKey =
     (if key_given claudeApiKey
      then enhanceWithClaude create parse description (extractFromDescription description)
      else extractFromDescription description)"

text \<open>
  An enhancement that failed, in the words of the specification: the transport failed, or
  the reply holds no structured object that parses. (A reply without a content block makes
  the source throw inside its \<open>try\<close> and counts as a failed transport.)
\<close>

definition enhancement_failed ::
  "enhance_api \<Rightarrow> json_parse \<Rightarrow> string \<Rightarrow> ExtractedParams \<Rightarrow> bool" where
  "enhancement_failed create parse description p =
     (case create description p of
        Inl e \<Rightarrow> True
      | Inr content \<Rightarrow>
          (case content of
             [] \<Rightarrow> True
           | block # _ \<Rightarrow>
               (case exec False JSON_OBJECT_REGEX (block_text block) of
                  None \<Rightarrow> True
                | Some m \<Rightarrow> parse (matched m) = None)))"

fun join :: "string \<Rightarrow> string list \<Rightarrow> string" where
  "join sep [] = []"
| "join sep [x] = x"
| "join sep (x # y # ys) = x @ sep @ join sep (y # ys)"

definition trim :: "string \<Rightarrow> string" where
  "trim s = rev (dropWhile is_space (rev (dropWhile is_space s)))"

definition fallback_question :: "string list \<Rightarrow> string" where
  "fallback_question missing =
     ''I need some additional information to complete your deployment. Could you please provide: ''
       @ join '', '' missing @ ''?''"

definition generateFollowUpQuestion :: "question_api \<Rightarrow> string list \<Rightarrow> string \<Rightarrow> string" where
  "generateFollowUpQuestion ask missing description =
     (if length missing = 0 then []
      else (case ask missing description of
              Inl e \<Rightarrow> fallback_question missing
            | Inr content \<Rightarrow>
                (case content of
                   [] \<Rightarrow> fallback_question missing
                 | block # _ \<Rightarrow> trim (block_text block))))"

definition generateQuestion ::
  "question_api \<Rightarrow> string list \<Rightarrow> string \<Rightarrow> string option \<Rightarrow> string" where
  "generateQuestion ask missing description claudeApiKey =
     (if length missing = 0 then []
      else if key_given claudeApiKey then generateFollowUpQuestion ask missing description
      else fallback_question missing)"

section \<open>Conversations\<close>

record turn =
  question :: string
  answer :: string

record ConversationState =
  id' :: string
  originalDescription :: string
  currentParams :: ExtractedParams
  missingParams :: "string list"
  history :: "turn list"
  complete :: bool

type_synonym conversationStore = "string \<rightharpoonup> ConversationState"

definition getConversation :: "conversationStore \<Rightarrow> string \<Rightarrow> ConversationState option" where
  "getConversation store cid = store cid"

definition updateConversation ::
  "conversationStore \<Rightarrow> string \<Rightarrow> string \<Rightarrow> string \<Rightarrow> ExtractedParams \<Rightarrow> string list
     \<Rightarrow> conversationStore \<times> ConversationState option" where
  "updateConversation store cid q a updatedParams missing =
     (case store cid of
        None \<Rightarrow> (store, None)
      | Some state \<Rightarrow>
          (let state = state\<lparr>currentParams := updatedParams,
                             missingParams := missing,
                             history := history state @ [\<lparr>question = q, answer = a\<rparr>],
                             complete := (length missing = 0)\<rparr>
           in (store(cid \<mapsto> state), Some state)))"

definition completeConversation ::
  "conversationStore \<Rightarrow> string \<Rightarrow> conversationStore \<times> ConversationState option" where
  "completeConversation store cid =
     (case store cid of
        None \<Rightarrow> (store, None)
      | Some state \<Rightarrow>
          (let state = state\<lparr>complete := True\<rparr> in (store(cid \<mapsto> state), Some state)))"

section \<open>The handler of \<open>natural_to_yaml\<close>, for an answer in a conversation\<close>

text \<open>What the process holds from outside: the libraries, the services and the API key.\<close>

record runtime =
  yaml_load_of :: yaml_load
  yaml_dump_of :: yaml_dump
  enhance_of :: enhance_api
  question_of :: question_api
  json_parse_of :: json_parse
  CLAUDE_API_KEY :: "string option"

datatype tool_result =
    AskMore string string "string list"
  | Finished string string bool "string list"
  | Failed string

text \<open>
  The merge of the handler: \<open>{...conversation.currentParams, ...params}\<close>.
\<close>

definition merge_turn :: "ExtractedParams \<Rightarrow> ExtractedParams \<Rightarrow> ExtractedParams" where
  "merge_turn current params = params_spread current params"

definition truthy_text :: "string option \<Rightarrow> bool" where
  "truthy_text x = (case x of Some s \<Rightarrow> s \<noteq> [] | None \<Rightarrow> False)"

definition answer_turn ::
  "runtime \<Rightarrow> conversationStore \<Rightarrow> string \<Rightarrow> string \<Rightarrow> string option
     \<Rightarrow> conversationStore \<times> tool_result" where
  "answer_turn rt store conversationId ans existingYaml =
     (case getConversation store conversationId of
        None \<Rightarrow> (store, Failed (''Conversation not found: '' @ conversationId))
      | Some conversation \<Rightarrow>
          (let combinedDescription = originalDescription conversation @ '' '' @ ans;
               (params, missing) = processDescription (enhance_of rt) (json_parse_of rt)
                                     combinedDescription (CLAUDE_API_KEY rt);
               updatedParams = merge_turn (currentParams conversation) params;
               lastQuestion = (if 0 < length (history conversation)
                               then question (last (history conversation)) else []);
               store = fst (updateConversation store conversationId lastQuestion ans
                              updatedParams missing)
           in if 0 < length missing
              then (store, AskMore conversationId
                      (generateQuestion (question_of rt) missing combinedDescription
                         (CLAUDE_API_KEY rt)) missing)
              else (case (if truthy_text existingYaml
                          then updateYaml (yaml_load_of rt) (yaml_dump_of rt)
                                 (case existingYaml of Some y \<Rightarrow> y | None \<Rightarrow> []) updatedParams
                          else generateYaml (yaml_dump_of rt) updatedParams) of
                      Inl e \<Rightarrow> (store, Failed (error_message e))
                    | Inr yamlContent \<Rightarrow>
                        (let validation = validateYaml (yaml_load_of rt) yamlContent;
                             store = fst (completeConversation store conversationId)
                         in (store, Finished conversationId yamlContent (valid validation)
                                      (errors validation))))))"

section \<open>Properties of the template processor\<close>

subsection \<open>What each step of the extraction leaves alone\<close>

lemma extract_cpu_frame:
  "memory (extract_cpu d p) = memory p" "storage (extract_cpu d p) = storage p"
  "gpu (extract_cpu d p) = gpu p" "duration (extract_cpu d p) = duration p"
  "region (extract_cpu d p) = region p" "image' (extract_cpu d p) = image' p"
  "name (extract_cpu d p) = name p" "amount (extract_cpu d p) = amount p"
  by (simp_all add: extract_cpu_def split: option.splits)

lemma extract_memory_frame:
  "cpu (extract_memory d p) = cpu p" "storage (extract_memory d p) = storage p"
  "gpu (extract_memory d p) = gpu p" "duration (extract_memory d p) = duration p"
  "region (extract_memory d p) = region p" "image' (extract_memory d p) = image' p"
  "name (extract_memory d p) = name p" "amount (extract_memory d p) = amount p"
  by (simp_all add: extract_memory_def Let_def split: option.splits)

lemma extract_storage_frame:
  "cpu (extract_storage d p) = cpu p" "memory (extract_storage d p) = memory p"
  "gpu (extract_storage d p) = gpu p" "duration (extract_storage d p) = duration p"
  "region (extract_storage d p) = region p" "image' (extract_storage d p) = image' p"
  "name (extract_storage d p) = name p" "amount (extract_storage d p) = amount p"
  by (simp_all add: extract_storage_def Let_def split: option.splits)

lemma extract_gpu_frame:
  "cpu (extract_gpu d p) = cpu p" "memory (extract_gpu d p) = memory p"
  "storage (extract_gpu d p) = storage p" "duration (extract_gpu d p) = duration p"
  "region (extract_gpu d p) = region p" "image' (extract_gpu d p) = image' p"
  "name (extract_gpu d p) = name p" "amount (extract_gpu d p) = amount p"
  by (simp_all add: extract_gpu_def Let_def split: option.splits)

lemma extract_gpu_count_frame:
  "cpu (extract_gpu_count d p) = cpu p" "memory (extract_gpu_count d p) = memory p"
  "storage (extract_gpu_count d p) = storage p" "duration (extract_gpu_count d p) = duration p"
  "region (extract_gpu_count d p) = region p" "image' (extract_gpu_count d p) = image' p"
  "name (extract_gpu_count d p) = name p" "amount (extract_gpu_count d p) = amount p"
  by (simp_all add: extract_gpu_count_def split: option.splits)

lemma extract_duration_frame:
  "cpu (extract_duration d p) = cpu p" "memory (extract_duration d p) = memory p"
  "storage (extract_duration d p) = storage p" "gpu (extract_duration d p) = gpu p"
  "region (extract_duration d p) = region p" "image' (extract_duration d p) = image' p"
  "name (extract_duration d p) = name p" "amount (extract_duration d p) = amount p"
  by (simp_all add: extract_duration_def Let_def split: option.splits)

lemma extract_region_frame:
  "cpu (extract_region d p) = cpu p" "memory (extract_region d p) = memory p"
  "storage (extract_region d p) = storage p" "gpu (extract_region d p) = gpu p"
  "duration (extract_region d p) = duration p" "image' (extract_region d p) = image' p"
  "name (extract_region d p) = name p" "amount (extract_region d p) = amount p"
  by (simp_all add: extract_region_def split: option.splits)

lemma extract_jupyter_frame:
  "cpu (extract_jupyter d p) = cpu p" "memory (extract_jupyter d p) = memory p"
  "storage (extract_jupyter d p) = storage p" "gpu (extract_jupyter d p) = gpu p"
  "duration (extract_jupyter d p) = duration p" "region (extract_jupyter d p) = region p"
  "name (extract_jupyter d p) = name p" "amount (extract_jupyter d p) = amount p"
  by (simp_all add: extract_jupyter_def)

lemma extract_name_frame:
  "cpu (extract_name p) = cpu p" "memory (extract_name p) = memory p"
  "storage (extract_name p) = storage p" "gpu (extract_name p) = gpu p"
  "duration (extract_name p) = duration p" "region (extract_name p) = region p"
  "image' (extract_name p) = image' p" "amount (extract_name p) = amount p"
  by (simp_all add: extract_name_def split: option.splits)

lemmas extract_frame = extract_cpu_frame extract_memory_frame extract_storage_frame
  extract_gpu_frame extract_gpu_count_frame extract_duration_frame extract_region_frame
  extract_jupyter_frame extract_name_frame

lemma empty_params_sel:
  "cpu empty_params = None" "memory empty_params = None" "storage empty_params = None"
  "gpu empty_params = None" "duration empty_params = None" "region empty_params = None"
  "image' empty_params = None" "name empty_params = None" "amount empty_params = None"
  by (simp_all add: empty_params_def)

subsection \<open>Region\<close>

lemma region_extract:
  "region (extractFromDescription text) =
     (case str_match text REGION_REGEX of
        None \<Rightarrow> None
      | Some m \<Rightarrow> Some (normalize_region (toLowerCase (grp m 1))))"
proof -
  have "region (extractFromDescription text) =
      region (extract_region text (extract_duration text (extract_gpu_count text (extract_gpu text
        (extract_storage text (extract_memory text (extract_cpu text empty_params)))))))"
    by (simp add: extractFromDescription_def Let_def extract_frame)
  also have "\<dots> = (case str_match text REGION_REGEX of
        None \<Rightarrow> None
      | Some m \<Rightarrow> Some (normalize_region (toLowerCase (grp m 1))))"
    by (simp add: extract_region_def extract_frame empty_params_sel split: option.splits)
  finally show ?thesis .
qed

text \<open>
  Claim C2, as the code has it: the region of an extraction is decided by the first match
  of the region expression in the text. Without a match the region stays unset; the
  keywords \<open>eastcoast\<close> and \<open>us-east\<close> (in any letter case) give \<open>eastcoast\<close>, and every
  other keyword of the expression gives \<open>westcoast\<close>.
\<close>

theorem region_of_extraction:
  "region (extractFromDescription text) =
     (case str_match text REGION_REGEX of
        None \<Rightarrow> None
      | Some m \<Rightarrow>
          Some (if toLowerCase (grp m 1) = ''eastcoast'' \<or> toLowerCase (grp m 1) = ''us-east''
                then ''eastcoast'' else ''westcoast''))"
  by (simp add: region_extract normalize_region_def split: option.splits)

text \<open>
  Claim C2 as stated fails: the text \<open>us-east\<close> is extracted to the region \<open>eastcoast\<close>,
  not \<open>westcoast\<close>.
\<close>

theorem region_us_east_counterexample:
  "region (extractFromDescription ''us-east'') = Some ''eastcoast''
   \<and> region (extractFromDescription ''us-east'') \<noteq> Some ''westcoast''"
proof -
  have m: "str_match ''us-east'' REGION_REGEX =
      Some \<lparr>matched = ''us-east'', groups = [Some ''us-east'']\<rparr>"
    by code_simp
  have n: "normalize_region (toLowerCase ''us-east'') = ''eastcoast''"
    by code_simp
  show ?thesis
    by (simp add: region_extract m grp_def n)
qed

subsection \<open>GPU\<close>

lemma gpu_extract:
  "gpu (extractFromDescription text) =
     (case (str_match text GPU_REGEX, str_match text GPU_COUNT_REGEX) of
        (None, None) \<Rightarrow> None
      | (None, Some c) \<Rightarrow> Some \<lparr>units = Some (parseInt (grp c 1)), model = None\<rparr>
      | (Some g, None) \<Rightarrow>
          Some \<lparr>units = Some 1, model = Some (normalize_gpu_model (toLowerCase (grp g 1)))\<rparr>
      | (Some g, Some c) \<Rightarrow>
          Some \<lparr>units = Some (parseInt (grp c 1)),
                model = Some (normalize_gpu_model (toLowerCase (grp g 1)))\<rparr>)"
proof -
  have "gpu (extractFromDescription text) =
      gpu (extract_gpu_count text (extract_gpu text
        (extract_storage text (extract_memory text (extract_cpu text empty_params)))))"
    by (simp add: extractFromDescription_def Let_def extract_frame)
  also have "\<dots> = (case (str_match text GPU_REGEX, str_match text GPU_COUNT_REGEX) of
        (None, None) \<Rightarrow> None
      | (None, Some c) \<Rightarrow> Some \<lparr>units = Some (parseInt (grp c 1)), model = None\<rparr>
      | (Some g, None) \<Rightarrow>
          Some \<lparr>units = Some 1, model = Some (normalize_gpu_model (toLowerCase (grp g 1)))\<rparr>
      | (Some g, Some c) \<Rightarrow>
          Some \<lparr>units = Some (parseInt (grp c 1)),
                model = Some (normalize_gpu_model (toLowerCase (grp g 1)))\<rparr>)"
    by (simp add: extract_gpu_count_def extract_gpu_def gpu_or_empty_def empty_gpu_def Let_def
        extract_frame empty_params_sel split: option.splits)
  finally show ?thesis .
qed

text \<open>
  Claim C3, as the code has it: the GPU field of an extraction is decided by the first
  matches of the GPU model expression and of the GPU count expression. A count without a
  model keyword creates a GPU spec that holds the count and no model; a model keyword
  without a count gives the unit count 1; the field stays unset only when neither matches.
\<close>

theorem gpu_of_extraction:
  "gpu (extractFromDescription text) =
     (case (str_match text GPU_REGEX, str_match text GPU_COUNT_REGEX) of
        (None, None) \<Rightarrow> None
      | (None, Some c) \<Rightarrow> Some \<lparr>units = Some (parseInt (grp c 1)), model = None\<rparr>
      | (Some g, None) \<Rightarrow>
          Some \<lparr>units = Some 1, model = Some (normalize_gpu_model (toLowerCase (grp g 1)))\<rparr>
      | (Some g, Some c) \<Rightarrow>
          Some \<lparr>units = Some (parseInt (grp c 1)),
                model = Some (normalize_gpu_model (toLowerCase (grp g 1)))\<rparr>)"
  by (rule gpu_extract)

text \<open>
  Claim C3 as stated fails: in the text \<open>2 gpus\<close> an integer precedes \<open>gpus\<close> and no model
  keyword matches, and the extraction holds a GPU spec with 2 units.
\<close>

theorem gpu_count_alone_counterexample:
  "str_match ''2 gpus'' GPU_COUNT_REGEX \<noteq> None \<and> str_match ''2 gpus'' GPU_REGEX = None
   \<and> gpu (extractFromDescription ''2 gpus'') = Some \<lparr>units = Some 2, model = None\<rparr>"
proof -
  have c: "str_match ''2 gpus'' GPU_COUNT_REGEX =
      Some \<lparr>matched = ''2 gpus'', groups = [Some ''2'']\<rparr>"
    by code_simp
  have g: "str_match ''2 gpus'' GPU_REGEX = None"
    by code_simp
  have n: "parseInt ''2'' = 2"
    by code_simp
  show ?thesis
    by (simp add: gpu_extract c g grp_def n)
qed

subsection \<open>Missing parameters\<close>

lemma identifyMissingParams_append:
  "identifyMissingParams p =
     (if falsy_num (cpu p) then [''CPU cores''] else []) @
     (if falsy_str (memory p) then [''memory (RAM)''] else []) @
     (if falsy_str (storage p) then [''storage''] else []) @
     (if falsy_str (duration p) then [''duration''] else []) @
     (if gpu_workload p \<and> gpu p = None then [''GPU model''] else [])"
  by (simp add: identifyMissingParams_def Let_def)

lemma labels_distinct:
  "distinct [''CPU cores'', ''memory (RAM)'', ''storage'', ''duration'', ''GPU model'']"
  by simp

lemma picked_mem:
  fixes A B C D E :: bool
  assumes "distinct [a, b, c, d, e]"
    and "L = (if A then [a] else []) @ (if B then [b] else []) @ (if C then [c] else []) @
             (if D then [d] else []) @ (if E then [e] else [])"
  shows "a \<in> set L \<longleftrightarrow> A" "b \<in> set L \<longleftrightarrow> B" "c \<in> set L \<longleftrightarrow> C" "d \<in> set L \<longleftrightarrow> D"
    "e \<in> set L \<longleftrightarrow> E"
  using assms by (auto split: if_splits)

lemma picked_filter:
  fixes A B C D E :: bool
  assumes "distinct [a, b, c, d, e]"
    and "L = (if A then [a] else []) @ (if B then [b] else []) @ (if C then [c] else []) @
             (if D then [d] else []) @ (if E then [e] else [])"
  shows "filter (\<lambda>l. l \<in> set L) [a, b, c, d, e] = L"
proof -
  note m = picked_mem [OF assms]
  have "filter (\<lambda>l. l \<in> set L) [a, b, c, d, e] =
      (if a \<in> set L then [a] else []) @ (if b \<in> set L then [b] else []) @
      (if c \<in> set L then [c] else []) @ (if d \<in> set L then [d] else []) @
      (if e \<in> set L then [e] else [])"
    by simp
  also have "\<dots> = L" unfolding m by (simp add: assms(2))
  finally show ?thesis .
qed

lemma gpu_workload_iff:
  "gpu_workload p \<longleftrightarrow> (\<exists>img. image' p = Some img \<and> (str_includes img ''cuda''
      \<or> str_includes img ''pytorch'' \<or> str_includes img ''tensorflow''))"
  by (auto simp: gpu_workload_def split: option.splits)

lemma falsy_num_iff: "falsy_num x \<longleftrightarrow> x = None \<or> x = Some 0"
  by (simp add: falsy_num_def split: option.splits)

lemma falsy_str_iff: "falsy_str x \<longleftrightarrow> x = None \<or> x = Some []"
  by (simp add: falsy_str_def split: option.splits)

text \<open>
  Claim C4: the list of missing parameters holds \<open>GPU model\<close> exactly when the image
  string contains \<open>cuda\<close>, \<open>pytorch\<close> or \<open>tensorflow\<close> and the parameter set has no GPU
  field; it holds the label of the CPU units, of the memory size, of the storage size and
  of the duration exactly when that field is missing (absent, \<open>0\<close> or the empty string),
  whatever the other fields are; and its labels stand in the fixed order CPU, memory,
  storage, duration, GPU.
\<close>

theorem missing_params_characterised:
  "(''GPU model'' \<in> set (identifyMissingParams p) \<longleftrightarrow>
      (\<exists>img. image' p = Some img \<and> (str_includes img ''cuda'' \<or> str_includes img ''pytorch''
         \<or> str_includes img ''tensorflow'')) \<and> gpu p = None)
   \<and> (''CPU cores'' \<in> set (identifyMissingParams p) \<longleftrightarrow> cpu p = None \<or> cpu p = Some 0)
   \<and> (''memory (RAM)'' \<in> set (identifyMissingParams p) \<longleftrightarrow> memory p = None \<or> memory p = Some [])
   \<and> (''storage'' \<in> set (identifyMissingParams p) \<longleftrightarrow> storage p = None \<or> storage p = Some [])
   \<and> (''duration'' \<in> set (identifyMissingParams p) \<longleftrightarrow> duration p = None \<or> duration p = Some [])
   \<and> identifyMissingParams p =
         filter (\<lambda>l. l \<in> set (identifyMissingParams p))
           [''CPU cores'', ''memory (RAM)'', ''storage'', ''duration'', ''GPU model'']"
proof -
  note m = picked_mem [OF labels_distinct identifyMissingParams_append, of p]
  note f = picked_filter [OF labels_distinct identifyMissingParams_append, of p]
  show ?thesis
    using m f by (simp only: gpu_workload_iff falsy_num_iff falsy_str_iff simp_thms)
qed

subsection \<open>Decimal texts and the matcher on them\<close>



lemma show_nat_nonempty: "show_nat n \<noteq> []"
  by (subst show_nat.simps) simp











subsection \<open>Price amount\<close>


lemma calculateAmount_duration:
  "calculateAmount p = calculateAmount (empty_params\<lparr>duration := duration p\<rparr>)"
  by (simp add: calculateAmount_def)

lemma extraction_amount_duration:
  "amount (extractFromDescription text) =
     Some (calculateAmount (empty_params\<lparr>duration := duration (extractFromDescription text)\<rparr>))"
  "duration (extractFromDescription text) = duration (extract_duration text empty_params)"
proof -
  define q where "q = extract_name (extract_jupyter text (extract_region text (extract_duration text
    (extract_gpu_count text (extract_gpu text (extract_storage text (extract_memory text
    (extract_cpu text empty_params))))))))"
  have r: "extractFromDescription text = q\<lparr>amount := Some (calculateAmount q)\<rparr>"
    by (simp add: extractFromDescription_def Let_def q_def)
  have d: "duration q = duration (extract_duration text
    (extract_gpu_count text (extract_gpu text (extract_storage text (extract_memory text
    (extract_cpu text empty_params))))))"
    by (simp add: q_def extract_frame)
  have e: "duration (extract_duration text p) = duration (extract_duration text p')"
    if "duration p = duration p'" for p p'
    using that by (simp add: extract_duration_def Let_def split: option.splits)
  have "duration q = duration (extract_duration text empty_params)"
    unfolding d by (rule e) (simp add: extract_frame)
  then show "duration (extractFromDescription text) = duration (extract_duration text empty_params)"
    unfolding r by simp
  show "amount (extractFromDescription text) =
     Some (calculateAmount (empty_params\<lparr>duration := duration (extractFromDescription text)\<rparr>))"
    unfolding r by (simp add: calculateAmount_duration [of q])
qed



lemma own_prop_Cons:
  "own_prop (JObj ((k, v) # kvs)) k' = (if k' = k then v else own_prop (JObj kvs) k')"
  by simp



section \<open>Properties of the generator and of the validator\<close>

lemma defined_expose: "list_all defined_tree (generateExposeConfig params)"
  by (simp add: generateExposeConfig_def default_expose_def expose_entry_def list_all_iff
      split: option.splits)

lemma defined_env: "list_all defined_tree (generateEnvConfig params)"
  by (auto simp: generateEnvConfig_def list_all_iff split: option.splits)

lemma defined_resources: "defined_tree (generateResourcesConfig params)"
  by (simp add: generateResourcesConfig_def Let_def gpu_resource_def split: option.splits)

lemma defined_yamlConfig: "defined_tree (yamlConfig params)"
  by (simp add: yamlConfig_def Let_def defined_expose defined_env defined_resources)

lemma or_str_nonempty: "d \<noteq> [] \<Longrightarrow> or_str x d \<noteq> []"
  by (simp add: or_str_def split: option.splits)

lemma mode_text_nonempty: "mode_text m \<noteq> []"
  by (cases m) simp_all

lemma validate_body_yamlConfig: "validate_body (yamlConfig params) = ([], None)"
  by (simp add: validate_body_def yamlConfig_def Let_def and_then_def check_version_def
      check_services_def check_profiles_def check_deployment_def get_prop_def
      or_str_nonempty mode_text_nonempty split: option.splits)

text \<open>
  Claim C6: the generator gives every field of the document a value, so a library that
  dumps every tree without \<open>undefined\<close> dumps the document of any parameter set: the
  generator does not fail. When loading the dumped text gives the tree back, the validator
  returns \<open>valid: true\<close> with no error. This holds for every parameter set, so for one
  made of the defaults alone.
\<close>

theorem render_then_validate:
  assumes dumps: "\<And>v. defined_tree v \<Longrightarrow> \<exists>t. dump v = Inr t"
    and loads: "\<And>t. dump (yamlConfig params) = Inr t \<Longrightarrow> load t = Inr (yamlConfig params)"
  shows "\<exists>t. generateYaml dump params = Inr t
           \<and> validateYaml load t = \<lparr>valid = True, errors = []\<rparr>"
proof -
  obtain t where t: "dump (yamlConfig params) = Inr t"
    using dumps [OF defined_yamlConfig] by blast
  have "validateYaml load t = \<lparr>valid = True, errors = []\<rparr>"
    by (simp add: validateYaml_def loads [OF t] validate_body_yamlConfig)
  with t show ?thesis by (simp add: generateYaml_def)
qed

text \<open>The instance for the default parameter set and a library that satisfies both assumptions.\<close>

theorem render_then_validate_witness:
  "\<exists>t. generateYaml (\<lambda>v. Inr ''doc'') DEFAULT_PARAMS = Inr t
     \<and> validateYaml (\<lambda>t. Inr (yamlConfig DEFAULT_PARAMS)) t = \<lparr>valid = True, errors = []\<rparr>"
  using render_then_validate [of "\<lambda>v. Inr ''doc''" DEFAULT_PARAMS "\<lambda>t. Inr (yamlConfig DEFAULT_PARAMS)"]
  by simp

subsection \<open>The version check\<close>

lemma keeps_refl: "keeps errs (errs, x)"
  by (simp add: keeps_def)

lemma keeps_app: "keeps errs (errs @ ms, x)"
  by (simp add: keeps_def)

lemma keeps_trans: "keeps a (b, x) \<Longrightarrow> keeps b r \<Longrightarrow> keeps a r"
  by (auto simp: keeps_def)

lemma keeps_and_then:
  assumes "keeps errs r" and "\<And>es. keeps es (f es)"
  shows "keeps errs (and_then r f)"
proof (cases r)
  case (Pair es x)
  show ?thesis
  proof (cases x)
    case None
    with Pair assms(1) assms(2) [of es] show ?thesis
      by (auto simp: and_then_def keeps_def)
  next
    case (Some e)
    with Pair assms(1) show ?thesis by (simp add: and_then_def)
  qed
qed

lemma keeps_check_services: "keeps errs (check_services config errs)"
  by (simp add: check_services_def keeps_def split: sum.splits)

lemma keeps_check_deployment: "keeps errs (check_deployment config errs)"
  by (simp add: check_deployment_def keeps_def split: sum.splits)

lemma keeps_check_tokens: "keeps errs (check_tokens pricings r ks errs)"
proof (induction ks arbitrary: errs)
  case Nil
  show ?case by (simp add: keeps_def)
next
  case (Cons k ks)
  show ?case
  proof (cases "get_prop (own_prop pricings k) ''token''")
    case (Inl e)
    then show ?thesis by (simp add: keeps_def)
  next
    case (Inr token)
    show ?thesis
      using Cons.IH [of "if token \<noteq> JStr ''CST''
             then errs @ [''Token must be '' @ quoted ''CST'' @ '' for profile '' @ quoted k
                            @ '' in region '' @ quoted r]
             else errs"]
      by (auto simp: Inr keeps_def)
  qed
qed

lemma keeps_check_regions: "keeps errs (check_regions placements ks errs)"
proof (induction ks arbitrary: errs)
  case Nil
  show ?case by (simp add: keeps_def)
next
  case (Cons k ks)
  show ?case
  proof (cases "get_prop (own_prop placements k) ''pricing''")
    case (Inl e)
    then show ?thesis by (simp add: keeps_def)
  next
    case (Inr pricing)
    have "keeps errs (if \<not> truthy pricing \<or> length (own_keys pricing) = 0
             then (errs @ [''Pricing must be defined for region '' @ quoted k], None)
             else check_tokens pricing k (own_keys pricing) errs)"
      by (simp add: keeps_app keeps_check_tokens)
    then show ?thesis
      unfolding check_regions.simps Inr sum.case
      by (rule keeps_and_then) (rule Cons.IH)
  qed
qed

lemma keeps_check_profiles: "keeps errs (check_profiles config errs)"
proof (cases "get_prop config ''profiles''")
  case (Inl e)
  then show ?thesis by (simp add: check_profiles_def keeps_def)
next
  case (Inr profiles)
  show ?thesis
  proof (cases "truthy profiles")
    case False
    with Inr show ?thesis by (simp add: check_profiles_def keeps_def)
  next
    case True
    define e1 where "e1 = (if \<not> truthy (own_prop profiles ''duration'')
                           then errs @ [''Duration must be specified''] else errs)"
    define e2 where "e2 = (if \<not> truthy (own_prop profiles ''mode'')
                           then e1 @ [''Mode must be specified''] else e1)"
    define e3 where "e3 = (if \<not> truthy (own_prop profiles ''compute'')
                              \<or> length (own_keys (own_prop profiles ''compute'')) = 0
                           then e2 @ [''Compute resources must be defined''] else e2)"
    have k3: "keeps errs (e3, None)"
      by (simp add: e1_def e2_def e3_def keeps_def)
    have r: "check_profiles config errs =
        (if \<not> truthy (own_prop profiles ''placement'')
            \<or> length (own_keys (own_prop profiles ''placement'')) = 0
         then (e3 @ [''Placement must be defined''], None)
         else check_regions (own_prop profiles ''placement'')
                (own_keys (own_prop profiles ''placement'')) e3)"
      by (simp add: check_profiles_def Inr True Let_def e1_def e2_def e3_def)
    have "keeps e3 (check_profiles config errs)"
      unfolding r by (simp add: keeps_app keeps_check_regions)
    with k3 show ?thesis by (rule keeps_trans)
  qed
qed

lemma validate_body_version:
  assumes "\<not> nullish config" and "own_prop config ''version'' \<noteq> JStr ''1.0''"
  shows "\<exists>more x. validate_body config = ((''Version must be '' @ quoted ''1.0'') # more, x)"
proof -
  have v: "check_version config [] = ([''Version must be '' @ quoted ''1.0''], None)"
    using assms by (simp add: check_version_def get_prop_def)
  have "keeps [''Version must be '' @ quoted ''1.0''] (validate_body config)"
    unfolding validate_body_def v
    by (intro keeps_and_then keeps_refl keeps_check_services keeps_check_profiles
        keeps_check_deployment)
  then show ?thesis
    by (cases "validate_body config") (auto simp: keeps_def)
qed

text \<open>
  Claim C9, as the code has it: when the text loads to a value other than \<open>null\<close> and
  \<open>undefined\<close>, and the version of that value is absent or is not the string \<open>1.0\<close>, the
  validator returns \<open>valid: false\<close> and its first error is \<open>Version must be "1.0"\<close>.
\<close>

theorem version_required:
  assumes "load yamlText = Inr config" and "\<not> nullish config"
    and "own_prop config ''version'' \<noteq> JStr ''1.0''"
  shows "\<not> valid (validateYaml load yamlText)
         \<and> hd (errors (validateYaml load yamlText)) = ''Version must be '' @ quoted ''1.0''
         \<and> ''Version must be '' @ quoted ''1.0'' \<in> set (errors (validateYaml load yamlText))"
proof -
  obtain more x where "validate_body config = ((''Version must be '' @ quoted ''1.0'') # more, x)"
    using validate_body_version [OF assms(2,3)] by blast
  then show ?thesis
    by (cases x) (simp_all add: validateYaml_def assms(1))
qed

text \<open>The instance for a document that holds an empty \<open>services\<close> section and no version.\<close>

theorem version_required_witness:
  "\<not> valid (validateYaml (\<lambda>t. Inr (JObj [(''services'', JObj [])])) ''services: {}'')
   \<and> hd (errors (validateYaml (\<lambda>t. Inr (JObj [(''services'', JObj [])])) ''services: {}''))
       = ''Version must be '' @ quoted ''1.0''
   \<and> ''Version must be '' @ quoted ''1.0''
       \<in> set (errors (validateYaml (\<lambda>t. Inr (JObj [(''services'', JObj [])])) ''services: {}''))"
  using version_required [of "\<lambda>t. Inr (JObj [(''services'', JObj [])])" "''services: {}''"
    "JObj [(''services'', JObj [])]"]
  by simp

text \<open>
  Claim C9 as stated fails for the empty document, which the library loads as
  \<open>undefined\<close>: it has no version field, reading the field throws, and the only error
  returned is the \<open>Invalid YAML\<close> one.
\<close>

theorem version_null_document_counterexample:
  "own_prop JUndefined ''version'' \<noteq> JStr ''1.0''
   \<and> validateYaml (\<lambda>t. Inr JUndefined) [] =
       \<lparr>valid = False,
        errors = [''Invalid YAML: Cannot read properties of undefined (reading '' @ [CHR 0x27]
                  @ ''version'' @ [CHR 0x27] @ '')'']\<rparr>
   \<and> ''Version must be '' @ quoted ''1.0'' \<notin> set (errors (validateYaml (\<lambda>t. Inr JUndefined) []))"
  by (simp add: validateYaml_def validate_body_def check_version_def get_prop_def and_then_def
      quoted_def)

section \<open>Properties of the pipeline\<close>

subsection \<open>Enhancement\<close>

lemma enhance_failed:
  "enhancement_failed create parse description p \<Longrightarrow>
     enhanceWithClaude create parse description p = p"
  by (auto simp: enhancement_failed_def enhanceWithClaude_def parseClaudeResponse_def
      split: sum.splits list.splits option.splits)

lemma process_failed:
  assumes "enhancement_failed create parse description (extractFromDescription description)"
  shows "processDescription create parse description k =
           processDescription create parse description None"
  using enhance_failed [OF assms] by (simp add: processDescription_def Let_def key_given_def)

lemma enhance_backfill:
  assumes "create description p = Inr (b # bs)"
    and "exec False JSON_OBJECT_REGEX (block_text b) = Some m"
    and "parse (matched m) = Some e" and "amount e = None"
  shows "enhanceWithClaude create parse description p = e\<lparr>amount := Some (or_num (amount p) 15)\<rparr>"
  using assms by (simp add: enhanceWithClaude_def parseClaudeResponse_def)

text \<open>
  Claim C8: when the enhancement failed, \<open>enhanceWithClaude\<close> returns the parameter set it
  was given, and the pipeline returns what it returns without an API key: the failure is
  neither fatal nor visible in the result. When a structured object is parsed and has no
  amount, the amount is filled in from the parameter set before the enhancement, or with 15
  when that one has none (or 0).
\<close>

theorem enhancement_never_fatal:
  "(enhancement_failed create parse description p \<longrightarrow>
      enhanceWithClaude create parse description p = p)
   \<and> (enhancement_failed create parse description (extractFromDescription description) \<longrightarrow>
      processDescription create parse description k =
        processDescription create parse description None)
   \<and> (create description p = Inr (b # bs)
        \<and> exec False JSON_OBJECT_REGEX (block_text b) = Some m
        \<and> parse (matched m) = Some e \<and> amount e = None \<longrightarrow>
      enhanceWithClaude create parse description p =
        e\<lparr>amount := Some (case amount p of Some a \<Rightarrow> if a = 0 then 15 else a | None \<Rightarrow> 15)\<rparr>)"
  using enhance_failed [of create parse description p]
    process_failed [of create parse description k]
    enhance_backfill [of create description p b bs m parse e]
  by (simp add: or_num_def)

lemma json_match_example:
  "exec False JSON_OBJECT_REGEX ''ok: {}'' = Some \<lparr>matched = ''{}'', groups = []\<rparr>"
  by code_simp

text \<open>
  Instances: a transport that times out, and a reply \<open>ok: {}\<close> whose object parses to a
  parameter set without an amount.
\<close>

theorem enhancement_never_fatal_witness:
  "enhanceWithClaude (\<lambda>d q. Inl (LibraryError ''timeout'')) (\<lambda>s. None) ''8 cores'' empty_params
     = empty_params
   \<and> processDescription (\<lambda>d q. Inl (LibraryError ''timeout'')) (\<lambda>s. None) ''8 cores'' (Some ''key'')
     = processDescription (\<lambda>d q. Inl (LibraryError ''timeout'')) (\<lambda>s. None) ''8 cores'' None
   \<and> enhanceWithClaude (\<lambda>d q. Inr [TextBlock ''ok: {}'']) (\<lambda>s. Some (empty_params\<lparr>cpu := Some 8\<rparr>))
         ''8 cores'' (empty_params\<lparr>amount := Some 6\<rparr>)
     = empty_params\<lparr>cpu := Some 8, amount := Some 6\<rparr>"
proof -
  have f: "enhancement_failed (\<lambda>d q. Inl (LibraryError ''timeout'')) (\<lambda>s. None) d q" for d q
    by (simp add: enhancement_failed_def)
  have a: "amount (empty_params\<lparr>cpu := Some 8\<rparr>) = None"
    by (simp add: empty_params_def)
  show ?thesis
    using enhancement_never_fatal [of "\<lambda>d q. Inl (LibraryError ''timeout'')" "\<lambda>s. None"
        "''8 cores''" empty_params "Some ''key''"]
      enhancement_never_fatal [of "\<lambda>d q. Inr [TextBlock ''ok: {}'']"
        "\<lambda>s. Some (empty_params\<lparr>cpu := Some 8\<rparr>)" "''8 cores''" "empty_params\<lparr>amount := Some 6\<rparr>"
        None "TextBlock ''ok: {}''" "[]" "\<lparr>matched = ''{}'', groups = []\<rparr>"
        "empty_params\<lparr>cpu := Some 8\<rparr>"]
    by (simp add: f a json_match_example del: exec.simps)
qed

subsection \<open>The default merge\<close>

lemma gpu_mergeWithDefaults:
  "gpu (mergeWithDefaults p) =
     Some \<lparr>units = Some (case gpu p of None \<Rightarrow> 1
                          | Some g \<Rightarrow> (case units g of None \<Rightarrow> 1 | Some u \<Rightarrow> u)),
           model = Some (case gpu p of None \<Rightarrow> ''rtx6000-ada''
                          | Some g \<Rightarrow> (case model g of None \<Rightarrow> ''rtx6000-ada'' | Some m \<Rightarrow> m))\<rparr>"
  by (simp add: mergeWithDefaults_def gpu_spread_def DEFAULT_PARAMS_def empty_gpu_def override_def
      Let_def split: option.splits)

lemma rendered_gpu:
  "gpu p = Some g \<Longrightarrow>
     get_path (yamlConfig p) [''profiles'', ''compute'', or_str (name p) ''py-cuda'',
       ''resources'', ''gpu''] = gpu_resource g"
  by (simp add: yamlConfig_def Let_def generateResourcesConfig_def split: option.splits)

lemma gpu_resource_defined: "gpu_resource g \<noteq> JUndefined"
  by (simp add: gpu_resource_def)

lemma process_complete:
  assumes "snd (processDescription create parse description k) = []"
  shows "\<exists>q. fst (processDescription create parse description k) = mergeWithDefaults q"
  using assms by (auto simp: processDescription_def Let_def split: if_splits)

lemma gpu_merge_turn: "gpu params = Some g \<Longrightarrow> gpu (merge_turn current params) = Some g"
  by (simp add: merge_turn_def params_spread_def override_def)

text \<open>
  Claim C10: when the pipeline finds no missing parameter, its result has a GPU spec: the
  units and the model of the parameter set before the merge where it has them, and 1 and
  \<open>rtx6000-ada\<close> where it has not. The document generated from the result has a GPU
  block in the resources of its compute profile.
\<close>

theorem completed_result_has_gpu:
  assumes "snd (processDescription create parse description k) = []"
  shows "gpu (fst (processDescription create parse description k)) =
           Some \<lparr>units = Some (case gpu (pre_merge create parse description k) of
                                 None \<Rightarrow> 1
                               | Some g \<Rightarrow> (case units g of None \<Rightarrow> 1 | Some u \<Rightarrow> u)),
                 model = Some (case gpu (pre_merge create parse description k) of
                                 None \<Rightarrow> ''rtx6000-ada''
                               | Some g \<Rightarrow> (case model g of None \<Rightarrow> ''rtx6000-ada''
                                                          | Some m \<Rightarrow> m))\<rparr>
         \<and> (\<exists>g. gpu (fst (processDescription create parse description k)) = Some g
                \<and> get_path (yamlConfig (fst (processDescription create parse description k)))
                     [''profiles'', ''compute'',
                      or_str (name (fst (processDescription create parse description k))) ''py-cuda'',
                      ''resources'', ''gpu''] = gpu_resource g
                \<and> gpu_resource g \<noteq> JUndefined)"
proof -
  have r: "fst (processDescription create parse description k)
             = mergeWithDefaults (pre_merge create parse description k)"
    using assms by (simp add: processDescription_def pre_merge_def Let_def split: if_splits)
  have g: "gpu (fst (processDescription create parse description k)) =
           Some \<lparr>units = Some (case gpu (pre_merge create parse description k) of
                                 None \<Rightarrow> 1
                               | Some g \<Rightarrow> (case units g of None \<Rightarrow> 1 | Some u \<Rightarrow> u)),
                 model = Some (case gpu (pre_merge create parse description k) of
                                 None \<Rightarrow> ''rtx6000-ada''
                               | Some g \<Rightarrow> (case model g of None \<Rightarrow> ''rtx6000-ada''
                                                          | Some m \<Rightarrow> m))\<rparr>"
    unfolding r by (rule gpu_mergeWithDefaults)
  show ?thesis
  proof (intro conjI exI)
    show "gpu (fst (processDescription create parse description k)) =
           Some \<lparr>units = Some (case gpu (pre_merge create parse description k) of
                                 None \<Rightarrow> 1
                               | Some g \<Rightarrow> (case units g of None \<Rightarrow> 1 | Some u \<Rightarrow> u)),
                 model = Some (case gpu (pre_merge create parse description k) of
                                 None \<Rightarrow> ''rtx6000-ada''
                               | Some g \<Rightarrow> (case model g of None \<Rightarrow> ''rtx6000-ada''
                                                          | Some m \<Rightarrow> m))\<rparr>"
      by (rule g)
    show "gpu (fst (processDescription create parse description k)) =
           Some \<lparr>units = Some (case gpu (pre_merge create parse description k) of
                                 None \<Rightarrow> 1
                               | Some g \<Rightarrow> (case units g of None \<Rightarrow> 1 | Some u \<Rightarrow> u)),
                 model = Some (case gpu (pre_merge create parse description k) of
                                 None \<Rightarrow> ''rtx6000-ada''
                               | Some g \<Rightarrow> (case model g of None \<Rightarrow> ''rtx6000-ada''
                                                          | Some m \<Rightarrow> m))\<rparr>"
      by (rule g)
    show "get_path (yamlConfig (fst (processDescription create parse description k)))
                     [''profiles'', ''compute'',
                      or_str (name (fst (processDescription create parse description k))) ''py-cuda'',
                      ''resources'', ''gpu'']
          = gpu_resource \<lparr>units = Some (case gpu (pre_merge create parse description k) of
                                 None \<Rightarrow> 1
                               | Some g \<Rightarrow> (case units g of None \<Rightarrow> 1 | Some u \<Rightarrow> u)),
                 model = Some (case gpu (pre_merge create parse description k) of
                                 None \<Rightarrow> ''rtx6000-ada''
                               | Some g \<Rightarrow> (case model g of None \<Rightarrow> ''rtx6000-ada''
                                                          | Some m \<Rightarrow> m))\<rparr>"
      by (rule rendered_gpu [OF g])
    show "gpu_resource \<lparr>units = Some (case gpu (pre_merge create parse description k) of
                                 None \<Rightarrow> 1
                               | Some g \<Rightarrow> (case units g of None \<Rightarrow> 1 | Some u \<Rightarrow> u)),
                 model = Some (case gpu (pre_merge create parse description k) of
                                 None \<Rightarrow> ''rtx6000-ada''
                               | Some g \<Rightarrow> (case model g of None \<Rightarrow> ''rtx6000-ada''
                                                          | Some m \<Rightarrow> m))\<rparr> \<noteq> JUndefined"
      by (rule gpu_resource_defined)
  qed
qed

lemma cpu_extract:
  "cpu (extractFromDescription text) =
     (case str_match text CPU_REGEX of None \<Rightarrow> None | Some m \<Rightarrow> Some (parseInt (grp m 1)))"
  by (simp add: extractFromDescription_def Let_def extract_frame extract_cpu_def empty_params_sel
      split: option.splits)

lemma memory_extract:
  "str_match text MEMORY_REGEX = Some m \<Longrightarrow> memory (extractFromDescription text) \<noteq> None
     \<and> memory (extractFromDescription text) \<noteq> Some []"
  by (simp add: extractFromDescription_def Let_def extract_frame extract_memory_def
      show_nat_nonempty)

lemma storage_extract:
  "str_match text STORAGE_REGEX = Some m \<Longrightarrow> storage (extractFromDescription text) \<noteq> None
     \<and> storage (extractFromDescription text) \<noteq> Some []"
  by (simp add: extractFromDescription_def Let_def extract_frame extract_storage_def
      show_nat_nonempty)

lemma image_extract:
  "image' (extractFromDescription text) =
     (if str_includes (toLowerCase text) ''jupyter'' \<or> str_includes (toLowerCase text) ''notebook''
      then Some jupyter_image else None)"
  by (simp add: extractFromDescription_def Let_def extract_frame extract_jupyter_def
      empty_params_sel)

lemma example_matches:
  "str_match ''1 cpu 1G RAM 1G disk 1hr'' CPU_REGEX = Some \<lparr>matched = ''1 cpu'', groups = [Some ''1'', Some ''cpu'']\<rparr>"
  "str_match ''1 cpu 1G RAM 1G disk 1hr'' MEMORY_REGEX = Some \<lparr>matched = ''1G RAM'', groups = [Some ''1'', Some ''G'', Some ''RAM'']\<rparr>"
  "str_match ''1 cpu 1G RAM 1G disk 1hr'' STORAGE_REGEX = Some \<lparr>matched = ''1G disk'', groups = [Some ''1'', Some ''G'', Some ''disk'']\<rparr>"
  "str_match ''1 cpu 1G RAM 1G disk 1hr'' DURATION_REGEX = Some \<lparr>matched = ''1hr'', groups = [Some ''1'', Some ''hr'']\<rparr>"
  "str_match ''1 cpu 1G RAM 1G disk 1hr'' GPU_REGEX = None"
  "str_match ''1 cpu 1G RAM 1G disk 1hr'' GPU_COUNT_REGEX = None"
  by code_simp+

lemma example_words:
  "str_includes (toLowerCase ''1 cpu 1G RAM 1G disk 1hr'') ''jupyter'' = False"
  "str_includes (toLowerCase ''1 cpu 1G RAM 1G disk 1hr'') ''notebook'' = False"
  "parseInt ''1'' = 1" "toLowerCase ''hr'' = ''hr''"
  by code_simp+

lemma example_missing:
  "identifyMissingParams (extractFromDescription ''1 cpu 1G RAM 1G disk 1hr'') = []"
proof -
  let ?r = "extractFromDescription ''1 cpu 1G RAM 1G disk 1hr''"
  have c: "\<not> falsy_num (cpu ?r)"
    by (simp add: cpu_extract example_matches grp_def example_words falsy_num_def)
  have m: "\<not> falsy_str (memory ?r)"
    using memory_extract [OF example_matches(2)] by (simp add: falsy_str_iff)
  have s: "\<not> falsy_str (storage ?r)"
    using storage_extract [OF example_matches(3)] by (simp add: falsy_str_iff)
  have "duration ?r = Some (show_nat 1 @ ''h'')"
    by (simp add: extraction_amount_duration(2) extract_duration_def example_matches grp_def
        example_words Let_def)
  then have d: "\<not> falsy_str (duration ?r)"
    by (simp add: falsy_str_def)
  have g: "\<not> gpu_workload ?r"
    by (simp add: gpu_workload_def image_extract example_words)
  show ?thesis
    by (simp add: identifyMissingParams_append c m s d g)
qed


lemma snd_processDescription:
  "snd (processDescription create parse description k)
     = identifyMissingParams (pre_merge create parse description k)"
  by (simp add: processDescription_def pre_merge_def Let_def)

text \<open>
  The instance for a description that names CPU, memory, storage and duration and no GPU,
  processed without an API key.
\<close>

theorem completed_result_has_gpu_witness:
  "snd (processDescription (\<lambda>d q. Inr []) (\<lambda>s. None) ''1 cpu 1G RAM 1G disk 1hr'' None) = []
   \<and> gpu (extractFromDescription ''1 cpu 1G RAM 1G disk 1hr'') = None
   \<and> gpu (fst (processDescription (\<lambda>d q. Inr []) (\<lambda>s. None) ''1 cpu 1G RAM 1G disk 1hr'' None))
       = Some \<lparr>units = Some 1, model = Some ''rtx6000-ada''\<rparr>
   \<and> (\<exists>g. gpu (fst (processDescription (\<lambda>d q. Inr []) (\<lambda>s. None) ''1 cpu 1G RAM 1G disk 1hr'' None))
              = Some g
          \<and> get_path (yamlConfig (fst (processDescription (\<lambda>d q. Inr []) (\<lambda>s. None)
                 ''1 cpu 1G RAM 1G disk 1hr'' None)))
               [''profiles'', ''compute'',
                or_str (name (fst (processDescription (\<lambda>d q. Inr []) (\<lambda>s. None)
                  ''1 cpu 1G RAM 1G disk 1hr'' None))) ''py-cuda'',
                ''resources'', ''gpu''] = gpu_resource g
          \<and> gpu_resource g \<noteq> JUndefined)"
proof -
  have p: "pre_merge (\<lambda>d q. Inr []) (\<lambda>s. None) ''1 cpu 1G RAM 1G disk 1hr'' None
             = extractFromDescription ''1 cpu 1G RAM 1G disk 1hr''"
    by (simp add: pre_merge_def key_given_def)
  have m: "snd (processDescription (\<lambda>d q. Inr []) (\<lambda>s. None) ''1 cpu 1G RAM 1G disk 1hr'' None) = []"
    by (simp only: snd_processDescription p example_missing)
  have g: "gpu (extractFromDescription ''1 cpu 1G RAM 1G disk 1hr'') = None"
    by (simp add: gpu_extract example_matches)
  note t = completed_result_has_gpu [OF m]
  have u: "gpu (fst (processDescription (\<lambda>d q. Inr []) (\<lambda>s. None) ''1 cpu 1G RAM 1G disk 1hr'' None))
       = Some \<lparr>units = Some 1, model = Some ''rtx6000-ada''\<rparr>"
    using t [THEN conjunct1] by (simp add: p g)
  show ?thesis
    by (intro conjI) (fact m, fact g, fact u, fact t [THEN conjunct2])
qed


section \<open>Properties of the conversation handler\<close>

lemma merge_turn_fields:
  "image' (merge_turn a b) = (case image' b of Some x \<Rightarrow> Some x | None \<Rightarrow> image' a)"
  "pullPolicy (merge_turn a b) = (case pullPolicy b of Some x \<Rightarrow> Some x | None \<Rightarrow> pullPolicy a)"
  "ports (merge_turn a b) = (case ports b of Some x \<Rightarrow> Some x | None \<Rightarrow> ports a)"
  "env (merge_turn a b) = (case env b of Some x \<Rightarrow> Some x | None \<Rightarrow> env a)"
  "cpu (merge_turn a b) = (case cpu b of Some x \<Rightarrow> Some x | None \<Rightarrow> cpu a)"
  "memory (merge_turn a b) = (case memory b of Some x \<Rightarrow> Some x | None \<Rightarrow> memory a)"
  "storage (merge_turn a b) = (case storage b of Some x \<Rightarrow> Some x | None \<Rightarrow> storage a)"
  "gpu (merge_turn a b) = (case gpu b of Some x \<Rightarrow> Some x | None \<Rightarrow> gpu a)"
  "name (merge_turn a b) = (case name b of Some x \<Rightarrow> Some x | None \<Rightarrow> name a)"
  "duration (merge_turn a b) = (case duration b of Some x \<Rightarrow> Some x | None \<Rightarrow> duration a)"
  "mode (merge_turn a b) = (case mode b of Some x \<Rightarrow> Some x | None \<Rightarrow> mode a)"
  "region (merge_turn a b) = (case region b of Some x \<Rightarrow> Some x | None \<Rightarrow> region a)"
  "amount (merge_turn a b) = (case amount b of Some x \<Rightarrow> Some x | None \<Rightarrow> amount a)"
  "count (merge_turn a b) = (case count b of Some x \<Rightarrow> Some x | None \<Rightarrow> count a)"
  by (simp_all add: merge_turn_def params_spread_def override_def)

lemma answer_turn_stored:
  assumes "store cid = Some conversation"
  shows "\<exists>state. fst (answer_turn rt store cid ans existingYaml) cid = Some state
           \<and> currentParams state =
                merge_turn (currentParams conversation)
                  (fst (processDescription (enhance_of rt) (json_parse_of rt)
                     (originalDescription conversation @ '' '' @ ans) (CLAUDE_API_KEY rt)))
           \<and> originalDescription state = originalDescription conversation"
  using assms
  by (auto simp: answer_turn_def getConversation_def updateConversation_def
      completeConversation_def Let_def split: prod.splits sum.splits)

text \<open>
  Claim C1, as the code has it: for an answer in a known conversation the handler runs the
  pipeline on the original description, a space and the answer, and stores as the
  conversation's parameters the merge of the result over the parameters the conversation
  had. The merge is shallow: every top-level field, the GPU spec and the environment among
  them as whole values, is the new one when the new set has it and the old one otherwise.
\<close>

theorem turn_merge_is_shallow:
  assumes "store cid = Some conversation"
  shows "(\<exists>state. fst (answer_turn rt store cid ans existingYaml) cid = Some state
           \<and> currentParams state =
                merge_turn (currentParams conversation)
                  (fst (processDescription (enhance_of rt) (json_parse_of rt)
                     (originalDescription conversation @ '' '' @ ans) (CLAUDE_API_KEY rt))))
         \<and> gpu (merge_turn a b) = (case gpu b of Some x \<Rightarrow> Some x | None \<Rightarrow> gpu a)
         \<and> env (merge_turn a b) = (case env b of Some x \<Rightarrow> Some x | None \<Rightarrow> env a)
         \<and> image' (merge_turn a b) = (case image' b of Some x \<Rightarrow> Some x | None \<Rightarrow> image' a)
         \<and> pullPolicy (merge_turn a b) = (case pullPolicy b of Some x \<Rightarrow> Some x | None \<Rightarrow> pullPolicy a)
         \<and> ports (merge_turn a b) = (case ports b of Some x \<Rightarrow> Some x | None \<Rightarrow> ports a)
         \<and> cpu (merge_turn a b) = (case cpu b of Some x \<Rightarrow> Some x | None \<Rightarrow> cpu a)
         \<and> memory (merge_turn a b) = (case memory b of Some x \<Rightarrow> Some x | None \<Rightarrow> memory a)
         \<and> storage (merge_turn a b) = (case storage b of Some x \<Rightarrow> Some x | None \<Rightarrow> storage a)
         \<and> name (merge_turn a b) = (case name b of Some x \<Rightarrow> Some x | None \<Rightarrow> name a)
         \<and> duration (merge_turn a b) = (case duration b of Some x \<Rightarrow> Some x | None \<Rightarrow> duration a)
         \<and> mode (merge_turn a b) = (case mode b of Some x \<Rightarrow> Some x | None \<Rightarrow> mode a)
         \<and> region (merge_turn a b) = (case region b of Some x \<Rightarrow> Some x | None \<Rightarrow> region a)
         \<and> amount (merge_turn a b) = (case amount b of Some x \<Rightarrow> Some x | None \<Rightarrow> amount a)
         \<and> count (merge_turn a b) = (case count b of Some x \<Rightarrow> Some x | None \<Rightarrow> count a)"
proof -
  obtain state where "fst (answer_turn rt store cid ans existingYaml) cid = Some state"
    and "currentParams state =
                merge_turn (currentParams conversation)
                  (fst (processDescription (enhance_of rt) (json_parse_of rt)
                     (originalDescription conversation @ '' '' @ ans) (CLAUDE_API_KEY rt)))"
    using answer_turn_stored [where store = store and cid = cid, OF assms] by blast
  then have "\<exists>state. fst (answer_turn rt store cid ans existingYaml) cid = Some state
           \<and> currentParams state =
                merge_turn (currentParams conversation)
                  (fst (processDescription (enhance_of rt) (json_parse_of rt)
                     (originalDescription conversation @ '' '' @ ans) (CLAUDE_API_KEY rt)))"
    by blast
  then show ?thesis
    by (simp only: merge_turn_fields simp_thms)
qed

text \<open>The instance for a store that holds one conversation, and a process without an API key.\<close>

theorem turn_merge_is_shallow_witness:
  "\<exists>state.
     fst (answer_turn
            \<lparr>yaml_load_of = \<lambda>t. Inr JNull, yaml_dump_of = \<lambda>v. Inr ''doc'',
             enhance_of = \<lambda>d q. Inr [], question_of = \<lambda>m d. Inr [],
             json_parse_of = \<lambda>s. None, CLAUDE_API_KEY = None\<rparr>
            [''c1'' \<mapsto> \<lparr>id' = ''c1'', originalDescription = ''8 cores'',
                        currentParams = empty_params, missingParams = [], history = [],
                        complete = False\<rparr>]
            ''c1'' ''16GB RAM'' None) ''c1'' = Some state
     \<and> currentParams state =
          merge_turn empty_params
            (fst (processDescription (\<lambda>d q. Inr []) (\<lambda>s. None) (''8 cores'' @ '' '' @ ''16GB RAM'')
                    None))"
  using turn_merge_is_shallow [of
      "[''c1'' \<mapsto> \<lparr>id' = ''c1'', originalDescription = ''8 cores'',
                        currentParams = empty_params, missingParams = [], history = [],
                        complete = False\<rparr>]"
      "''c1''"
      "\<lparr>id' = ''c1'', originalDescription = ''8 cores'',
                        currentParams = empty_params, missingParams = [], history = [],
                        complete = False\<rparr>"
      "\<lparr>yaml_load_of = \<lambda>t. Inr JNull, yaml_dump_of = \<lambda>v. Inr ''doc'',
             enhance_of = \<lambda>d q. Inr [], question_of = \<lambda>m d. Inr [],
             json_parse_of = \<lambda>s. None, CLAUDE_API_KEY = None\<rparr>"
      "''16GB RAM''" None]
  by simp

text \<open>
  Claim C1 as stated fails: the GPU spec and the environment are not merged key by key.
  A new GPU spec that holds units only replaces an old one that held a model, and the model
  is gone; a new environment replaces the old one, and the old variable is gone.
\<close>

theorem nested_merge_counterexample:
  "gpu (merge_turn (empty_params\<lparr>gpu := Some \<lparr>units = Some 2, model = Some ''a100''\<rparr>\<rparr>)
                   (empty_params\<lparr>gpu := Some \<lparr>units = Some 4, model = None\<rparr>\<rparr>))
     = Some \<lparr>units = Some 4, model = None\<rparr>
   \<and> env (merge_turn (empty_params\<lparr>env := Some [(''A'', ''1'')]\<rparr>)
                     (empty_params\<lparr>env := Some [(''B'', ''2'')]\<rparr>))
     = Some [(''B'', ''2'')]"
  by (simp add: merge_turn_def params_spread_def override_def empty_params_def)

section \<open>Properties of the updater\<close>

subsection \<open>Reading and writing in a tree\<close>

lemma replace_value_same:
  "replace_value k (case map_of kvs k of Some v \<Rightarrow> v | None \<Rightarrow> d) kvs = kvs"
  by (induction kvs) auto

lemma array_index_length: "array_index ''length'' = None"
  by code_simp

lemma put_child_own_prop: "put_child v k (own_prop v k) = v"
proof (cases v)
  case (JObj kvs)
  then show ?thesis by (simp add: replace_value_same)
next
  case (JArr xs)
  then show ?thesis by (simp add: array_index_length split: option.splits)
qed simp_all

lemma with_child_same:
  assumes "\<not> nullish v" and "f (own_prop v k) = Inr (own_prop v k)"
  shows "with_child v k f = Inr v"
  using assms by (simp add: with_child_def get_prop_def put_child_own_prop)

lemma replace_value_obj_set:
  "map_of kvs k = Some y \<Longrightarrow> replace_value k c kvs = obj_set k c kvs"
  by (induction kvs) (auto split: if_splits)

lemma is_obj_not_nullish: "is_obj v \<Longrightarrow> \<not> nullish v"
  by (cases v) simp_all

lemma is_obj_truthy: "is_obj v \<Longrightarrow> truthy v"
  by (cases v) simp_all

lemma with_child_set:
  assumes "is_obj v" and "is_obj (own_prop v k)" and "f (own_prop v k) = Inr c"
  shows "with_child v k f = Inr (set_at v k c)"
proof -
  from assms(1) obtain kvs where v: "v = JObj kvs" by (cases v) simp_all
  with assms(2) obtain y where "map_of kvs k = Some y"
    by (cases "map_of kvs k") simp_all
  then have "replace_value k c kvs = obj_set k c kvs"
    by (rule replace_value_obj_set)
  with v assms(3) show ?thesis
    by (simp add: with_child_def get_prop_def)
qed

lemma map_of_obj_set: "map_of (obj_set k y kvs) k' = (if k' = k then Some y else map_of kvs k')"
  by (induction kvs) auto

lemma own_prop_set_at:
  "is_obj v \<Longrightarrow> own_prop (set_at v k y) k = y"
  "k' \<noteq> k \<Longrightarrow> own_prop (set_at v k y) k' = own_prop v k'"
  by (cases v; simp add: map_of_obj_set)+

lemma is_obj_set_at: "is_obj (set_at v k y) = is_obj v"
  by (cases v) simp_all

lemma get_put_path: "objs_along v p \<Longrightarrow> get_path (put_path v p x) p = x"
  by (induction p arbitrary: v) (simp_all add: own_prop_set_at)

lemma put_path_frame: "diverge q p \<Longrightarrow> get_path (put_path v p x) q = get_path v q"
proof (induction q p arbitrary: v rule: diverge.induct)
  case (1 a p b q)
  show ?case
  proof (cases "a = b")
    case False
    then show ?thesis by (simp add: own_prop_set_at)
  next
    case True
    with 1 have d: "diverge p q" by simp
    show ?thesis
    proof (cases "is_obj v")
      case True
      with \<open>a = b\<close> "1.IH" [OF d] show ?thesis by (simp add: own_prop_set_at)
    next
      case False
      then have "set_at v b (put_path (own_prop v b) q x) = v" by (cases v) simp_all
      then show ?thesis by simp
    qed
  qed
qed simp_all

lemma get_path_undefined: "get_path JUndefined p = JUndefined"
  by (induction p) simp_all

lemma obj_set_same: "map_of kvs k = Some y \<Longrightarrow> obj_set k y kvs = kvs"
  by (induction kvs) (auto split: if_splits)

lemma set_at_own_prop: "own_prop v k \<noteq> JUndefined \<Longrightarrow> set_at v k (own_prop v k) = v"
proof (cases v)
  case (JObj kvs)
  assume "own_prop v k \<noteq> JUndefined"
  with JObj obtain y where "map_of kvs k = Some y" by (cases "map_of kvs k") simp_all
  with JObj show ?thesis by (simp add: obj_set_same)
qed simp_all

lemma put_get_path: "get_path v p \<noteq> JUndefined \<Longrightarrow> put_path v p (get_path v p) = v"
proof (induction p arbitrary: v)
  case Nil
  show ?case by simp
next
  case (Cons k ks)
  then have "own_prop v k \<noteq> JUndefined"
    using get_path_undefined [of ks] by auto
  with Cons show ?case by (simp add: set_at_own_prop)
qed

end
